theory Spec2Isabelle
  imports Complex_Main
begin

section \<open>searchgoat-hex: a client for Cribl Search\<close>

text \<open>
  The embedding follows \<^verbatim>\<open>src/searchgoat_hex\<close>: \<^verbatim>\<open>exceptions.py\<close> (the error
  taxonomy), \<^verbatim>\<open>config.py\<close> (\<^verbatim>\<open>load_config\<close>) and \<^verbatim>\<open>client.py\<close> (the class
  \<^verbatim>\<open>CriblSearchHex\<close>). Exceptions are values of the type \<open>error\<close>; a method that may
  raise returns \<open>error + 'a\<close>. A Python string is given by its UTF-8 encoding, in
  which a line feed is the byte \<^verbatim>\<open>0x0A\<close> and nothing else is.
\<close>

subsection \<open>Python floats\<close>

text \<open>
  A float is a finite number, an infinity or not a number. Comparisons are exact; the
  arithmetic, which rounds, belongs to the library (below).
\<close>

datatype pyfloat = Finite real | PosInf | NegInf | NaN

subsection \<open>Decoded JSON values\<close>

text \<open>
  What \<^verbatim>\<open>json.loads\<close> and \<^verbatim>\<open>response.json()\<close> return: \<open>JNull\<close> is Python's
  \<^verbatim>\<open>None\<close>, \<open>JObj\<close> a \<^verbatim>\<open>dict\<close> given by its items, \<open>JArr\<close> a \<^verbatim>\<open>list\<close>.
\<close>

datatype json =
    JNull
  | JBool bool
  | JInt int
  | JFloat pyfloat
  | JStr string
  | JArr "json list"
  | JObj "(string \<times> json) list"

subsection \<open>Exceptions\<close>

text \<open>
  The four classes of \<^verbatim>\<open>exceptions.py\<close> carry their message; \<^verbatim>\<open>QueryError\<close> also has
  the attribute \<^verbatim>\<open>job_id\<close> (default \<^verbatim>\<open>None\<close>). The remaining constructors are the
  built-in exceptions that the client's code lets through.
\<close>

datatype error =
    ConfigurationError string
  | AuthenticationError string
  | QueryError string "json option"
  | TimeoutError string
  | JSONDecodeError
  | KeyError
  | IndexError
  | TypeError
  | AttributeError
  | OverflowError
  | ValueError

fun is_library_error :: "error \<Rightarrow> bool" where
  "is_library_error (ConfigurationError _) = True"
| "is_library_error (AuthenticationError _) = True"
| "is_library_error (QueryError _ _) = True"
| "is_library_error (TimeoutError _) = True"
| "is_library_error _ = False"

fun message :: "error \<Rightarrow> string" where
  "message (ConfigurationError m) = m"
| "message (AuthenticationError m) = m"
| "message (QueryError m _) = m"
| "message (TimeoutError m) = m"
| "message _ = []"

fun job_id_of :: "error \<Rightarrow> json option" where
  "job_id_of (QueryError _ j) = j"
| "job_id_of _ = None"

subsection \<open>Python strings\<close>

text \<open>\<^verbatim>\<open>needle in haystack\<close> on strings.\<close>

fun is_prefix :: "string \<Rightarrow> string \<Rightarrow> bool" where
  "is_prefix [] _ = True"
| "is_prefix (_ # _) [] = False"
| "is_prefix (a # as) (b # bs) = (a = b \<and> is_prefix as bs)"

fun contains :: "string \<Rightarrow> string \<Rightarrow> bool" where
  "contains [] needle = (needle = [])"
| "contains (c # cs) needle = (is_prefix needle (c # cs) \<or> contains cs needle)"

text \<open>The repr of a list of strings that hold no quote: \<^verbatim>\<open>['a', 'b']\<close>.\<close>

definition repr_str :: "string \<Rightarrow> string" where
  "repr_str s = [CHR 0x27] @ s @ [CHR 0x27]"

fun join_comma :: "string list \<Rightarrow> string" where
  "join_comma [] = []"
| "join_comma [s] = s"
| "join_comma (s # t # ss) = s @ '', '' @ join_comma (t # ss)"

definition repr_list :: "string list \<Rightarrow> string" where
  "repr_list ss = ''['' @ join_comma (map repr_str ss) @ '']''"

subsection \<open>Configuration (config.py)\<close>

record CriblConfig =
  client_id :: string
  client_secret :: string
  org_id :: string
  workspace :: string

definition auth_url :: "CriblConfig \<Rightarrow> string" where
  "auth_url cfg = ''https://login.cribl.cloud/oauth/token''"

definition api_base_url :: "CriblConfig \<Rightarrow> string" where
  "api_base_url cfg =
     ''https://'' @ workspace cfg @ ''-'' @ org_id cfg @ ''.cribl.cloud/api/v1/m/default_search''"

text \<open>
  \<^verbatim>\<open>a or b\<close> on optional strings: \<^verbatim>\<open>None\<close> and the empty string are falsy, so the
  right operand is the value in both cases.
\<close>

definition str_truthy :: "string option \<Rightarrow> bool" where
  "str_truthy v = (case v of None \<Rightarrow> False | Some s \<Rightarrow> s \<noteq> [])"

definition py_or :: "string option \<Rightarrow> string option \<Rightarrow> string option" where
  "py_or a b = (if str_truthy a then a else b)"

definition env_vars :: "(string \<times> string) list" where
  "env_vars =
     [(''client_id'', ''CRIBL_CLIENT_ID''),
      (''client_secret'', ''CRIBL_CLIENT_SECRET''),
      (''org_id'', ''CRIBL_ORG_ID''),
      (''workspace'', ''CRIBL_WORKSPACE'')]"

definition missing_message :: "string list \<Rightarrow> string" where
  "missing_message missing =
     ''Missing required credentials: '' @ repr_list missing @ [CHR 0x0A] @
     ''Either pass them as parameters or set environment variables: '' @
     repr_list (map (\<lambda>k. the (map_of env_vars k)) missing)"

text \<open>
  \<^verbatim>\<open>load_config\<close>; the first argument is the process environment (\<^verbatim>\<open>os.getenv\<close>), as
  it is after the optional \<^verbatim>\<open>load_dotenv()\<close>.
\<close>

definition load_config ::
  "(string \<rightharpoonup> string) \<Rightarrow> string option \<Rightarrow> string option \<Rightarrow> string option \<Rightarrow> string option
     \<Rightarrow> error + CriblConfig" where
  "load_config env cid csecret oid ws =
     (let resolved =
            [(''client_id'', py_or cid (env ''CRIBL_CLIENT_ID'')),
             (''client_secret'', py_or csecret (env ''CRIBL_CLIENT_SECRET'')),
             (''org_id'', py_or oid (env ''CRIBL_ORG_ID'')),
             (''workspace'', py_or ws (env ''CRIBL_WORKSPACE''))];
          missing = map fst (filter (\<lambda>(key, v). \<not> str_truthy v) resolved)
      in if missing \<noteq> [] then Inl (ConfigurationError (missing_message missing))
         else Inr \<lparr>client_id = the (the (map_of resolved ''client_id'')),
                   client_secret = the (the (map_of resolved ''client_secret'')),
                   org_id = the (the (map_of resolved ''org_id'')),
                   workspace = the (the (map_of resolved ''workspace''))\<rparr>)"


subsection \<open>More of Python: lines, decimal numerals\<close>

text \<open>
  \<^verbatim>\<open>s.split("\n")\<close>: the pieces between the line feeds, one more than there are
  line feeds.
\<close>

fun split_nl :: "string \<Rightarrow> string list" where
  "split_nl [] = [[]]"
| "split_nl (ch # cs) =
     (if ch = CHR 0x0A then [] # split_nl cs
      else (case split_nl cs of [] \<Rightarrow> [[ch]] | l # ls \<Rightarrow> (ch # l) # ls))"

text \<open>\<^verbatim>\<open>str(n)\<close> of a non-negative integer.\<close>

fun str_nat :: "nat \<Rightarrow> string" where
  "str_nat n =
     (if n < 10 then [char_of (48 + n)] else str_nat (n div 10) @ [char_of (48 + n mod 10)])"

declare str_nat.simps [simp del]

subsection \<open>Operations on decoded values\<close>

text \<open>Truth value of an object, as \<^verbatim>\<open>and\<close>, \<^verbatim>\<open>or\<close> and \<^verbatim>\<open>if\<close> take it.\<close>

fun truthy :: "json \<Rightarrow> bool" where
  "truthy JNull = False"
| "truthy (JBool b) = b"
| "truthy (JInt n) = (n \<noteq> 0)"
| "truthy (JFloat x) = (x \<noteq> Finite 0)"
| "truthy (JStr s) = (s \<noteq> [])"
| "truthy (JArr xs) = (xs \<noteq> [])"
| "truthy (JObj kvs) = (kvs \<noteq> [])"

text \<open>\<^verbatim>\<open>d[key]\<close> with a string key: only a dict takes it.\<close>

fun subscript :: "json \<Rightarrow> string \<Rightarrow> error + json" where
  "subscript (JObj kvs) k = (case map_of kvs k of None \<Rightarrow> Inl KeyError | Some v \<Rightarrow> Inr v)"
| "subscript _ k = Inl TypeError"

text \<open>\<^verbatim>\<open>xs[0]\<close>: the first element of a list, the first character of a string.\<close>

fun subscript0 :: "json \<Rightarrow> error + json" where
  "subscript0 (JArr []) = Inl IndexError"
| "subscript0 (JArr (x # xs)) = Inr x"
| "subscript0 (JStr []) = Inl IndexError"
| "subscript0 (JStr (ch # cs)) = Inr (JStr [ch])"
| "subscript0 (JObj kvs) = Inl KeyError"
| "subscript0 _ = Inl TypeError"

text \<open>\<^verbatim>\<open>d.get(key, default)\<close>: a method of dicts only.\<close>

fun get_default :: "json \<Rightarrow> string \<Rightarrow> json \<Rightarrow> error + json" where
  "get_default (JObj kvs) k d = (case map_of kvs k of None \<Rightarrow> Inr d | Some v \<Rightarrow> Inr v)"
| "get_default _ k d = Inl AttributeError"

text \<open>\<^verbatim>\<open>for item in items\<close>: what iteration yields.\<close>

fun iterate :: "json \<Rightarrow> error + json list" where
  "iterate (JArr xs) = Inr xs"
| "iterate (JObj kvs) = Inr (map (\<lambda>(k, v). JStr k) kvs)"
| "iterate (JStr s) = Inr (map (\<lambda>ch. JStr [ch]) s)"
| "iterate _ = Inl TypeError"

text \<open>
  \<^verbatim>\<open>n >= x\<close> for an int \<open>n\<close>: Python compares an int with an int, a bool or a float
  exactly, and every comparison with not-a-number is false.
\<close>

fun int_ge :: "int \<Rightarrow> json \<Rightarrow> error + bool" where
  "int_ge n (JInt m) = Inr (n \<ge> m)"
| "int_ge n (JBool b) = Inr (n \<ge> (if b then 1 else 0))"
| "int_ge n (JFloat (Finite x)) = Inr (of_int n \<ge> x)"
| "int_ge n (JFloat PosInf) = Inr False"
| "int_ge n (JFloat NegInf) = Inr True"
| "int_ge n (JFloat NaN) = Inr False"
| "int_ge n _ = Inl TypeError"

subsection \<open>Data frames\<close>

text \<open>
  A pandas data frame as far as the client looks at it: its columns in order, each with
  its label and its values, and its number of rows. A cell holds a decoded value, the
  marker of a missing value, or an instant in seconds since the epoch.
\<close>

datatype label = Name string | Position nat

datatype cell = Value json | Missing | Timestamp real

record frame =
  frame_columns :: "(label \<times> cell list) list"
  frame_len :: nat

subsection \<open>The Python library the client runs on\<close>

text \<open>
  The functions of the standard library, of \<^verbatim>\<open>requests\<close> and of pandas whose results
  the client only passes on are parameters of the model:
  \<^item> the JSON decoder (\<open>None\<close> where it raises its decode error);
  \<^item> \<^verbatim>\<open>str.strip()\<close>, which removes the leading and trailing whitespace of Unicode;
  \<^item> \<^verbatim>\<open>str()\<close> on values that are not strings;
  \<^item> the addition and subtraction of floats, which round, and the conversion of an int
    to a float (\<open>None\<close> where it raises \<^verbatim>\<open>OverflowError\<close>);
  \<^item> \<^verbatim>\<open>pd.DataFrame(records)\<close> and \<^verbatim>\<open>pd.to_datetime(column, unit="s", utc=True)\<close>.
\<close>

record pylib =
  json_parse :: "string \<Rightarrow> json option"
  str_strip :: "string \<Rightarrow> string"
  str_json :: "json \<Rightarrow> string"
  str_float :: "real \<Rightarrow> string"
  str_builtin :: "error \<Rightarrow> string"
  float_add :: "pyfloat \<Rightarrow> pyfloat \<Rightarrow> pyfloat"
  float_sub :: "pyfloat \<Rightarrow> pyfloat \<Rightarrow> pyfloat"
  float_of_int :: "int \<Rightarrow> pyfloat option"
  pd_DataFrame :: "json list \<Rightarrow> error + frame"
  pd_to_datetime :: "cell list \<Rightarrow> error + cell list"

definition py_strip :: "pylib \<Rightarrow> string \<Rightarrow> string" where
  "py_strip L s = str_strip L s"

definition json_loads :: "pylib \<Rightarrow> string \<Rightarrow> error + json" where
  "json_loads L s = (case json_parse L s of None \<Rightarrow> Inl JSONDecodeError | Some v \<Rightarrow> Inr v)"

definition py_str :: "pylib \<Rightarrow> json \<Rightarrow> string" where
  "py_str L v = (case v of JStr s \<Rightarrow> s | _ \<Rightarrow> str_json L v)"

definition str_error :: "pylib \<Rightarrow> error \<Rightarrow> string" where
  "str_error L e = (if is_library_error e then message e else str_builtin L e)"

subsection \<open>HTTP through requests.Session\<close>

datatype http_method = GET | POST

record request =
  req_method :: http_method
  req_url :: string
  req_headers :: "(string \<times> string) list"
  req_params :: "(string \<times> nat) list"
  req_json :: "(string \<times> json) list option"
  req_timeout :: nat

record response =
  status_code :: nat
  reason :: string
  resp_url :: string
  resp_text :: string

text \<open>
  A call of the session either raises a \<^verbatim>\<open>RequestException\<close> that is not an
  \<^verbatim>\<open>HTTPError\<close> (no connection, timeout), given by its \<^verbatim>\<open>str()\<close>, or returns a
  response.
\<close>

datatype http_result = Transport_Failure string | Response response

text \<open>
  \<^verbatim>\<open>response.raise_for_status()\<close> raises \<^verbatim>\<open>HTTPError\<close> for the client errors
  400 to 499 and the server errors 500 to 599, and for no other status;
  \<open>http_error_str\<close> is the text of that exception.
\<close>

definition is_http_error :: "response \<Rightarrow> bool" where
  "is_http_error r = (400 \<le> status_code r \<and> status_code r < 600)"

definition http_error_str :: "response \<Rightarrow> string" where
  "http_error_str r =
     str_nat (status_code r) @
     (if status_code r < 500 then '' Client Error: '' else '' Server Error: '') @
     reason r @ '' for url: '' @ resp_url r"

text \<open>
  A call of the session followed by \<^verbatim>\<open>raise_for_status()\<close> raises a
  \<^verbatim>\<open>RequestException\<close>: the call itself fails, or the status is rejected.
\<close>

definition request_fails :: "http_result \<Rightarrow> bool" where
  "request_fails r = (case r of Transport_Failure m \<Rightarrow> True | Response resp \<Rightarrow> is_http_error resp)"

definition response_json :: "pylib \<Rightarrow> response \<Rightarrow> error + json" where
  "response_json L r = json_loads L (resp_text r)"

subsection \<open>The world outside: clock, network, sleep\<close>

text \<open>
  \<open>clock w k\<close> is what the \<open>k\<close>-th call of \<^verbatim>\<open>time.time()\<close> returns,
  \<open>replies w k\<close> how the \<open>k\<close>-th request of the session ends, and \<open>sleep_at w k\<close> the
  time on the same clock at which the \<open>k\<close>-th call of \<^verbatim>\<open>time.sleep\<close> begins; \<open>ticks\<close>,
  \<open>sent\<close> and \<open>slept\<close> record the calls made so far.
\<close>

record world =
  clock :: "nat \<Rightarrow> real"
  ticks :: nat
  replies :: "nat \<Rightarrow> http_result"
  sent :: "request list"
  slept :: "real list"
  sleep_at :: "nat \<Rightarrow> real"

definition time_time :: "world \<Rightarrow> real \<times> world" where
  "time_time w = (clock w (ticks w), w\<lparr>ticks := Suc (ticks w)\<rparr>)"

definition send :: "request \<Rightarrow> world \<Rightarrow> http_result \<times> world" where
  "send rq w = (replies w (length (sent w)), w\<lparr>sent := sent w @ [rq]\<rparr>)"

definition time_sleep :: "real \<Rightarrow> world \<Rightarrow> world" where
  "time_sleep d w = w\<lparr>slept := slept w @ [d]\<rparr>"


subsection \<open>The client (client.py)\<close>

text \<open>
  The instance attributes of \<^verbatim>\<open>CriblSearchHex\<close>; \<open>token = JNull\<close> is
  \<^verbatim>\<open>self._token = None\<close>, and \<open>token_expires_at\<close> is the int \<open>0\<close> that \<^verbatim>\<open>__init__\<close>
  and \<^verbatim>\<open>test_connection\<close> assign or the float that \<^verbatim>\<open>_authenticate\<close> stores. The
  class constants \<^verbatim>\<open>_POLL_INTERVAL\<close> and \<^verbatim>\<open>_TOKEN_REFRESH_BUFFER\<close> follow.
\<close>

datatype pynum = PInt int | PFloat pyfloat

record client =
  config :: CriblConfig
  default_timeout :: real
  token :: json
  token_expires_at :: pynum

definition POLL_INTERVAL :: real where
  "POLL_INTERVAL = 2"

definition TOKEN_REFRESH_BUFFER :: int where
  "TOKEN_REFRESH_BUFFER = 300"

text \<open>
  \<^verbatim>\<open>self._token_expires_at - self._TOKEN_REFRESH_BUFFER\<close>: exact on an int; on a float the
  buffer, which is a float exactly, is subtracted with rounding.
\<close>

definition expiry_limit :: "pylib \<Rightarrow> pynum \<Rightarrow> pynum" where
  "expiry_limit L x =
     (case x of
        PInt n \<Rightarrow> PInt (n - TOKEN_REFRESH_BUFFER)
      | PFloat y \<Rightarrow> PFloat (float_sub L y (Finite (of_int TOKEN_REFRESH_BUFFER))))"

text \<open>\<^verbatim>\<open>time.time() < limit\<close>: the comparison of a finite float with a number is exact.\<close>

fun time_less :: "real \<Rightarrow> pynum \<Rightarrow> bool" where
  "time_less now (PInt n) = (now < of_int n)"
| "time_less now (PFloat (Finite y)) = (now < y)"
| "time_less now (PFloat PosInf) = True"
| "time_less now (PFloat NegInf) = False"
| "time_less now (PFloat NaN) = False"

text \<open>
  \<^verbatim>\<open>time.time() + x\<close>: an int is converted to a float first, which raises
  \<^verbatim>\<open>OverflowError\<close> when it is too large, and the sum is rounded; anything but a number
  raises \<^verbatim>\<open>TypeError\<close>.
\<close>

fun time_plus :: "pylib \<Rightarrow> real \<Rightarrow> json \<Rightarrow> error + pyfloat" where
  "time_plus L now (JInt n) =
     (case float_of_int L n of
        None \<Rightarrow> Inl OverflowError
      | Some y \<Rightarrow> Inr (float_add L (Finite now) y))"
| "time_plus L now (JBool b) = Inr (float_add L (Finite now) (Finite (if b then 1 else 0)))"
| "time_plus L now (JFloat y) = Inr (float_add L (Finite now) y)"
| "time_plus L now _ = Inl TypeError"

text \<open>\<^verbatim>\<open>__init__\<close>\<close>

definition init ::
  "(string \<rightharpoonup> string) \<Rightarrow> string option \<Rightarrow> string option \<Rightarrow> string option \<Rightarrow> string option
     \<Rightarrow> real \<Rightarrow> error + client" where
  "init env cid csecret oid ws tmo =
     (case load_config env cid csecret oid ws of
        Inl e \<Rightarrow> Inl e
      | Inr cfg \<Rightarrow>
          Inr \<lparr>config = cfg, default_timeout = tmo, token = JNull,
               token_expires_at = PInt 0\<rparr>)"

text \<open>\<^verbatim>\<open>_authenticate\<close>: the OAuth2 client-credentials exchange.\<close>

definition auth_request :: "client \<Rightarrow> request" where
  "auth_request c =
     \<lparr>req_method = POST,
      req_url = auth_url (config c),
      req_headers = [(''Content-Type'', ''application/json'')],
      req_params = [],
      req_json = Some [(''grant_type'', JStr ''client_credentials''),
                       (''client_id'', JStr (client_id (config c))),
                       (''client_secret'', JStr (client_secret (config c))),
                       (''audience'', JStr ''https://api.cribl.cloud'')],
      req_timeout = 30\<rparr>"

definition authenticate :: "pylib \<Rightarrow> client \<Rightarrow> world \<Rightarrow> (error + unit) \<times> client \<times> world" where
  "authenticate L c w =
     (let (r, w1) = send (auth_request c) w
      in case r of
           Transport_Failure m \<Rightarrow>
             (Inl (AuthenticationError (''Authentication request failed: '' @ m)), c, w1)
         | Response resp \<Rightarrow>
             if is_http_error resp
             then (Inl (AuthenticationError
                          (''Authentication failed: '' @ str_nat (status_code resp) @ '' - '' @
                           resp_text resp)), c, w1)
             else (case response_json L resp of
                     Inl e \<Rightarrow> (Inl e, c, w1)
                   | Inr data \<Rightarrow>
                       (case subscript data ''access_token'' of
                          Inl e \<Rightarrow> (Inl e, c, w1)
                        | Inr tok \<Rightarrow>
                            (let c1 = c\<lparr>token := tok\<rparr>;
                                 (now, w2) = time_time w1
                             in case get_default data ''expires_in'' (JInt 86400) of
                                  Inl e \<Rightarrow> (Inl e, c1, w2)
                                | Inr v \<Rightarrow>
                                    (case time_plus L now v of
                                       Inl e \<Rightarrow> (Inl e, c1, w2)
                                     | Inr t \<Rightarrow>
                                         (Inr (), c1\<lparr>token_expires_at := PFloat t\<rparr>, w2))))))"

text \<open>
  \<^verbatim>\<open>_get_auth_token\<close>. The clock is read only when \<^verbatim>\<open>self._token\<close> is truthy
  (\<^verbatim>\<open>and\<close> evaluates its right operand only then).
\<close>

definition get_auth_token :: "pylib \<Rightarrow> client \<Rightarrow> world \<Rightarrow> (error + json) \<times> client \<times> world" where
  "get_auth_token L c w =
     (let (valid, w1) =
            (if truthy (token c)
             then (let (now, w') = time_time w
                   in (time_less now (expiry_limit L (token_expires_at c)), w'))
             else (False, w))
      in if valid then (Inr (token c), c, w1)
         else (case authenticate L c w1 of
                 (Inl e, c', w2) \<Rightarrow> (Inl e, c', w2)
               | (Inr u, c', w2) \<Rightarrow> (Inr (token c'), c', w2)))"

text \<open>\<^verbatim>\<open>_get_headers\<close>\<close>

definition get_headers ::
  "pylib \<Rightarrow> client \<Rightarrow> world \<Rightarrow> (error + (string \<times> string) list) \<times> client \<times> world" where
  "get_headers L c w =
     (case get_auth_token L c w of
        (Inl e, c', w') \<Rightarrow> (Inl e, c', w')
      | (Inr tok, c', w') \<Rightarrow>
          (Inr [(''Authorization'', ''Bearer '' @ py_str L tok),
                (''Content-Type'', ''application/json'')], c', w'))"

text \<open>\<^verbatim>\<open>test_connection\<close>\<close>

definition test_connection :: "pylib \<Rightarrow> client \<Rightarrow> world \<Rightarrow> (error + bool) \<times> client \<times> world" where
  "test_connection L c w =
     (case get_auth_token L (c\<lparr>token := JNull, token_expires_at := PInt 0\<rparr>) w of
        (Inr tok, c', w') \<Rightarrow> (Inr True, c', w')
      | (Inl (AuthenticationError m), c', w') \<Rightarrow> (Inl (AuthenticationError m), c', w')
      | (Inl e, c', w') \<Rightarrow>
          (Inl (AuthenticationError (''Connection test failed: '' @ str_error L e)), c', w'))"

text \<open>\<^verbatim>\<open>list_datasets\<close>\<close>

definition dataset_name :: "json \<Rightarrow> error + json" where
  "dataset_name item =
     (case get_default item ''id'' JNull of
        Inl e \<Rightarrow> Inl e
      | Inr v \<Rightarrow> if truthy v then Inr v else get_default item ''name'' (JStr []))"

fun dataset_names :: "json list \<Rightarrow> error + json list" where
  "dataset_names [] = Inr []"
| "dataset_names (item # items) =
     (case dataset_name item of
        Inl e \<Rightarrow> Inl e
      | Inr v \<Rightarrow> (case dataset_names items of Inl e \<Rightarrow> Inl e | Inr vs \<Rightarrow> Inr (v # vs)))"

definition list_datasets ::
  "pylib \<Rightarrow> client \<Rightarrow> world \<Rightarrow> (error + json list) \<times> client \<times> world" where
  "list_datasets L c w =
     (case get_headers L c w of
        (Inl e, c', w') \<Rightarrow> (Inl e, c', w')
      | (Inr hdrs, c', w') \<Rightarrow>
          (let rq = \<lparr>req_method = GET,
                     req_url = api_base_url (config c') @ ''/datasets'',
                     req_headers = hdrs, req_params = [], req_json = None, req_timeout = 30\<rparr>;
               (r, w1) = send rq w'
           in case r of
                Transport_Failure m \<Rightarrow>
                  (Inl (QueryError (''Failed to list datasets: '' @ m) None), c', w1)
              | Response resp \<Rightarrow>
                  if is_http_error resp
                  then (if status_code resp = 401
                        then (Inl (AuthenticationError ''Authentication failed''), c', w1)
                        else (Inl (QueryError (''Failed to list datasets: '' @ http_error_str resp)
                                     None), c', w1))
                  else (case response_json L resp of
                          Inl e \<Rightarrow> (Inl e, c', w1)
                        | Inr data \<Rightarrow>
                            (case get_default data ''items'' (JArr []) of
                               Inl e \<Rightarrow> (Inl e, c', w1)
                             | Inr items \<Rightarrow>
                                 (case iterate items of
                                    Inl e \<Rightarrow> (Inl e, c', w1)
                                  | Inr xs \<Rightarrow>
                                      (case dataset_names xs of
                                         Inl e \<Rightarrow> (Inl e, c', w1)
                                       | Inr names \<Rightarrow> (Inr names, c', w1)))))))"

text \<open>\<^verbatim>\<open>_submit_job\<close>\<close>

definition submit_job ::
  "pylib \<Rightarrow> client \<Rightarrow> string \<Rightarrow> string \<Rightarrow> string \<Rightarrow> world \<Rightarrow> (error + json) \<times> client \<times> world" where
  "submit_job L c query earliest latest w =
     (case get_headers L c w of
        (Inl e, c', w') \<Rightarrow> (Inl e, c', w')
      | (Inr hdrs, c', w') \<Rightarrow>
          (let rq = \<lparr>req_method = POST,
                     req_url = api_base_url (config c') @ ''/search/jobs'',
                     req_headers = hdrs, req_params = [],
                     req_json = Some [(''query'', JStr query), (''earliest'', JStr earliest),
                                      (''latest'', JStr latest), (''sampleRate'', JInt 1)],
                     req_timeout = 30\<rparr>;
               (r, w1) = send rq w'
           in case r of
                Transport_Failure m \<Rightarrow>
                  (Inl (QueryError (''Job submission failed: '' @ m) None), c', w1)
              | Response resp \<Rightarrow>
                  if status_code resp = 400
                  then (Inl (QueryError (''Invalid query syntax: '' @ resp_text resp) None), c', w1)
                  else if is_http_error resp
                  then (if status_code resp = 401
                        then (Inl (AuthenticationError ''Authentication failed''), c', w1)
                        else (Inl (QueryError (''Job submission failed: '' @ http_error_str resp)
                                     None), c', w1))
                  else (case response_json L resp of
                          Inl e \<Rightarrow> (Inl e, c', w1)
                        | Inr data \<Rightarrow>
                            (case subscript data ''items'' of
                               Inl e \<Rightarrow> (Inl e, c', w1)
                             | Inr items \<Rightarrow>
                                 (case subscript0 items of
                                    Inl e \<Rightarrow> (Inl e, c', w1)
                                  | Inr item \<Rightarrow>
                                      (case subscript item ''id'' of
                                         Inl e \<Rightarrow> (Inl e, c', w1)
                                       | Inr v \<Rightarrow> (Inr v, c', w1)))))))"


text \<open>
  \<^verbatim>\<open>_wait_for_job\<close>: the loop \<^verbatim>\<open>while True\<close> is \<open>wait_loop\<close>, which has no value
  (\<open>None\<close>) when the loop runs forever.
\<close>

definition guidance :: string where
  "guidance =
     ''Try narrowing the time range or adding '' @ [CHR 0x27] @ ''| limit N'' @ [CHR 0x27] @
     '' to your query.''"

definition timeout_message :: "pylib \<Rightarrow> real \<Rightarrow> string" where
  "timeout_message L tmo =
     ''Query did not complete within '' @ str_float L tmo @ '' seconds. '' @ guidance"

definition status_request :: "(string \<times> string) list \<Rightarrow> string \<Rightarrow> request" where
  "status_request hdrs url =
     \<lparr>req_method = GET, req_url = url, req_headers = hdrs, req_params = [], req_json = None,
      req_timeout = 30\<rparr>"

partial_function (option) wait_loop ::
  "pylib \<Rightarrow> json \<Rightarrow> real \<Rightarrow> (string \<times> string) list \<Rightarrow> string \<Rightarrow> real \<Rightarrow> world
     \<Rightarrow> ((error + unit) \<times> world) option" where
  "wait_loop L job_id tmo hdrs url start_time w =
     (case time_time w of
        (now, w1) \<Rightarrow>
          if now - start_time > tmo then Some (Inl (TimeoutError (timeout_message L tmo)), w1)
          else (case send (status_request hdrs url) w1 of
                  (Transport_Failure m, w2) \<Rightarrow>
                    Some (Inl (QueryError (''Failed to check job status: '' @ m) None), w2)
                | (Response resp, w2) \<Rightarrow>
                    if is_http_error resp
                    then Some (Inl (QueryError (''Failed to check job status: '' @
                                                http_error_str resp) None), w2)
                    else (case response_json L resp of
                            Inl e \<Rightarrow> Some (Inl e, w2)
                          | Inr data \<Rightarrow>
                              (case subscript data ''items'' of
                                 Inl e \<Rightarrow> Some (Inl e, w2)
                               | Inr items \<Rightarrow>
                                   (case subscript0 items of
                                      Inl e \<Rightarrow> Some (Inl e, w2)
                                    | Inr item \<Rightarrow>
                                        (case subscript item ''status'' of
                                           Inl e \<Rightarrow> Some (Inl e, w2)
                                         | Inr status \<Rightarrow>
                                             if status = JStr ''completed'' then Some (Inr (), w2)
                                             else if status = JStr ''failed''
                                             then (case get_default item ''error''
                                                          (JStr ''Unknown error'') of
                                                     Inl e \<Rightarrow> Some (Inl e, w2)
                                                   | Inr error_msg \<Rightarrow>
                                                       Some (Inl (QueryError
                                                                   (''Query failed: '' @
                                                                    py_str L error_msg)
                                                                   (Some job_id)), w2))
                                             else if status = JStr ''canceled''
                                             then Some (Inl (QueryError ''Query was canceled''
                                                               (Some job_id)), w2)
                                             else wait_loop L job_id tmo hdrs url start_time
                                                    (time_sleep POLL_INTERVAL w2)))))))"

definition wait_for_job ::
  "pylib \<Rightarrow> client \<Rightarrow> json \<Rightarrow> real \<Rightarrow> world \<Rightarrow> ((error + unit) \<times> client \<times> world) option" where
  "wait_for_job L c job_id tmo w =
     (case get_headers L c w of
        (Inl e, c', w') \<Rightarrow> Some (Inl e, c', w')
      | (Inr hdrs, c', w') \<Rightarrow>
          (let url = api_base_url (config c') @ ''/search/jobs/'' @ py_str L job_id @ ''/status'';
               (start_time, w1) = time_time w'
           in case wait_loop L job_id tmo hdrs url start_time w1 of
                None \<Rightarrow> None
              | Some (r, w2) \<Rightarrow> Some (r, c', w2)))"

text \<open>
  \<^verbatim>\<open>_get_results\<close>: \<open>get_results_loop\<close> is the loop \<^verbatim>\<open>while True\<close> with its variables
  \<^verbatim>\<open>all_records\<close> and \<^verbatim>\<open>offset\<close>, \<open>to_data_frame\<close> the conversion that follows it.
\<close>

definition page_size :: nat where
  "page_size = 1000"

definition page_request :: "(string \<times> string) list \<Rightarrow> string \<Rightarrow> nat \<Rightarrow> request" where
  "page_request hdrs url offset =
     \<lparr>req_method = GET, req_url = url, req_headers = hdrs,
      req_params = [(''limit'', page_size), (''offset'', offset)], req_json = None,
      req_timeout = 60\<rparr>"

fun append_records :: "pylib \<Rightarrow> json list \<Rightarrow> string list \<Rightarrow> error + json list" where
  "append_records L all_records [] = Inr all_records"
| "append_records L all_records (line # lines) =
     (if py_strip L line \<noteq> []
      then (case json_loads L line of
              Inl e \<Rightarrow> Inl e
            | Inr v \<Rightarrow> append_records L (all_records @ [v]) lines)
      else append_records L all_records lines)"

text \<open>\<^verbatim>\<open>total_count is None or offset >= total_count\<close>\<close>

definition last_page :: "nat \<Rightarrow> json \<Rightarrow> error + bool" where
  "last_page offset total_count =
     (if total_count = JNull then Inr True
      else int_ge (int offset) total_count)"

partial_function (option) get_results_loop ::
  "pylib \<Rightarrow> (string \<times> string) list \<Rightarrow> string \<Rightarrow> json list \<Rightarrow> nat \<Rightarrow> world
     \<Rightarrow> ((error + json list) \<times> world) option" where
  "get_results_loop L hdrs url all_records offset w =
     (case send (page_request hdrs url offset) w of
        (Transport_Failure m, w1) \<Rightarrow>
          Some (Inl (QueryError (''Failed to retrieve results: '' @ m) None), w1)
      | (Response resp, w1) \<Rightarrow>
          if is_http_error resp
          then Some (Inl (QueryError (''Failed to retrieve results: '' @ http_error_str resp)
                            None), w1)
          else (case split_nl (py_strip L (resp_text resp)) of
                  [] \<Rightarrow> Some (Inr all_records, w1)
                | first # rest \<Rightarrow>
                    (case json_loads L first of
                       Inl e \<Rightarrow> Some (Inl e, w1)
                     | Inr metadata \<Rightarrow>
                         (case get_default metadata ''totalEventCount'' (JInt 0) of
                            Inl e \<Rightarrow> Some (Inl e, w1)
                          | Inr total_count \<Rightarrow>
                              (case append_records L all_records rest of
                                 Inl e \<Rightarrow> Some (Inl e, w1)
                               | Inr records \<Rightarrow>
                                   (case last_page (offset + page_size) total_count of
                                      Inl e \<Rightarrow> Some (Inl e, w1)
                                    | Inr stop \<Rightarrow>
                                        if stop then Some (Inr records, w1)
                                        else get_results_loop L hdrs url records
                                               (offset + page_size) w1))))))"

text \<open>\<^verbatim>\<open>df["_time"] = values\<close>\<close>

definition set_column :: "label \<Rightarrow> cell list \<Rightarrow> frame \<Rightarrow> frame" where
  "set_column name vals df =
     df\<lparr>frame_columns :=
          map (\<lambda>(k, col). if k = name then (k, vals) else (k, col)) (frame_columns df)\<rparr>"

definition to_data_frame :: "pylib \<Rightarrow> json list \<Rightarrow> error + frame" where
  "to_data_frame L all_records =
     (case pd_DataFrame L all_records of
        Inl e \<Rightarrow> Inl e
      | Inr df \<Rightarrow>
          (case map_of (frame_columns df) (Name ''_time'') of
             None \<Rightarrow> Inr df
           | Some col \<Rightarrow>
               if frame_len df > 0
               then (case pd_to_datetime L col of
                       Inl e \<Rightarrow> Inl e
                     | Inr instants \<Rightarrow> Inr (set_column (Name ''_time'') instants df))
               else Inr df))"

definition get_results ::
  "pylib \<Rightarrow> client \<Rightarrow> json \<Rightarrow> world \<Rightarrow> ((error + frame) \<times> client \<times> world) option" where
  "get_results L c job_id w =
     (case get_headers L c w of
        (Inl e, c', w') \<Rightarrow> Some (Inl e, c', w')
      | (Inr hdrs, c', w') \<Rightarrow>
          (let hdrs' = hdrs @ [(''Accept'', ''application/x-ndjson'')];
               url = api_base_url (config c') @ ''/search/jobs/'' @ py_str L job_id @ ''/results''
           in case get_results_loop L hdrs' url [] 0 w' of
                None \<Rightarrow> None
              | Some (Inl e, w1) \<Rightarrow> Some (Inl e, c', w1)
              | Some (Inr all_records, w1) \<Rightarrow> Some (to_data_frame L all_records, c', w1)))"

text \<open>\<^verbatim>\<open>query\<close>; \<^verbatim>\<open>timeout or self._default_timeout\<close> takes the default for
  \<^verbatim>\<open>None\<close> and for zero.\<close>

definition query ::
  "pylib \<Rightarrow> client \<Rightarrow> string \<Rightarrow> string \<Rightarrow> string \<Rightarrow> real option \<Rightarrow> world
     \<Rightarrow> ((error + frame) \<times> client \<times> world) option" where
  "query L c q earliest latest tmo w =
     (let tmo' = (case tmo of None \<Rightarrow> default_timeout c
                  | Some t \<Rightarrow> if t \<noteq> 0 then t else default_timeout c)
      in case submit_job L c q earliest latest w of
           (Inl e, c1, w1) \<Rightarrow> Some (Inl e, c1, w1)
         | (Inr job_id, c1, w1) \<Rightarrow>
             (case wait_for_job L c1 job_id tmo' w1 of
                None \<Rightarrow> None
              | Some (Inl e, c2, w2) \<Rightarrow> Some (Inl e, c2, w2)
              | Some (Inr u, c2, w2) \<Rightarrow> get_results L c2 job_id w2))"


subsection \<open>The mocked services of the tests\<close>

text \<open>
  Response bodies as the tests of the repository register them (and some more of the same
  shape), the decoder restricted to these bodies, the client that the tests build, and a
  world that answers the requests with a given list of replies and refuses the connection
  once the list is used up.
\<close>

definition auth_body :: string where
  \<open>auth_body =
     ''{"access_token": "mock-token-12345", "expires_in": 86400, "token_type": "Bearer"}''\<close>

definition auth_json :: "(string \<times> json) list" where
  "auth_json =
     [(''access_token'', JStr ''mock-token-12345''), (''expires_in'', JInt 86400),
      (''token_type'', JStr ''Bearer'')]"

definition submit_body :: string where
  \<open>submit_body = ''{"items": [{"id": "job-123"}]}''\<close>

definition submit_json :: "(string \<times> json) list" where
  "submit_json = [(''items'', JArr [JObj [(''id'', JStr ''job-123'')]])]"

definition running_body :: string where
  \<open>running_body = ''{"items": [{"status": "running"}]}''\<close>

definition running_json :: "(string \<times> json) list" where
  "running_json = [(''items'', JArr [JObj [(''status'', JStr ''running'')]])]"

definition completed_body :: string where
  \<open>completed_body = ''{"items": [{"status": "completed", "numEvents": 2}]}''\<close>

definition completed_json :: "(string \<times> json) list" where
  "completed_json =
     [(''items'', JArr [JObj [(''status'', JStr ''completed''), (''numEvents'', JInt 2)]])]"

definition failed_body :: string where
  \<open>failed_body = ''{"items": [{"status": "failed", "error": "Dataset not found"}]}''\<close>

definition failed_json :: "(string \<times> json) list" where
  "failed_json =
     [(''items'', JArr [JObj [(''status'', JStr ''failed''),
                              (''error'', JStr ''Dataset not found'')]])]"

definition failed_plain_body :: string where
  \<open>failed_plain_body = ''{"items": [{"status": "failed"}]}''\<close>

definition failed_plain_json :: "(string \<times> json) list" where
  "failed_plain_json = [(''items'', JArr [JObj [(''status'', JStr ''failed'')]])]"

definition canceled_body :: string where
  \<open>canceled_body = ''{"items": [{"status": "canceled"}]}''\<close>

definition canceled_json :: "(string \<times> json) list" where
  "canceled_json = [(''items'', JArr [JObj [(''status'', JStr ''canceled'')]])]"

definition datasets_body :: string where
  \<open>datasets_body = ''{"items": [{"id": "cribl_logs"}, {"name": "firewall"}, {}]}''\<close>

definition datasets_json :: "(string \<times> json) list" where
  "datasets_json =
     [(''items'', JArr [JObj [(''id'', JStr ''cribl_logs'')], JObj [(''name'', JStr ''firewall'')],
                        JObj []])]"

definition no_datasets_body :: string where
  \<open>no_datasets_body = ''{"items": []}''\<close>

definition meta_line :: string where
  \<open>meta_line = ''{"isFinished":true,"totalEventCount":2,"offset":0}''\<close>

definition meta_json :: "(string \<times> json) list" where
  "meta_json = [(''isFinished'', JBool True), (''totalEventCount'', JInt 2), (''offset'', JInt 0)]"

definition log1_line :: string where
  \<open>log1_line = ''{"_time":1704067200,"message":"log1"}''\<close>

definition log1_json :: json where
  "log1_json = JObj [(''_time'', JInt 1704067200), (''message'', JStr ''log1'')]"

definition log2_line :: string where
  \<open>log2_line = ''{"_time":1704067201,"message":"log2"}''\<close>

definition log2_json :: json where
  "log2_json = JObj [(''_time'', JInt 1704067201), (''message'', JStr ''log2'')]"

definition ndjson :: string where
  "ndjson = meta_line @ [CHR 0x0A] @ log1_line @ [CHR 0x0A] @ log2_line @ [CHR 0x0A]"

definition long_meta_line :: string where
  \<open>long_meta_line = ''{"isFinished":true,"totalEventCount":1500,"offset":0}''\<close>

definition long_meta_json :: "(string \<times> json) list" where
  "long_meta_json =
     [(''isFinished'', JBool True), (''totalEventCount'', JInt 1500), (''offset'', JInt 0)]"

definition long_ndjson :: string where
  "long_ndjson = long_meta_line @ [CHR 0x0A] @ log1_line @ [CHR 0x0A]"

definition log3_line :: string where
  \<open>log3_line = ''{"_time":1704067202,"message":"log3"}''\<close>

definition log3_json :: json where
  "log3_json = JObj [(''_time'', JInt 1704067202), (''message'', JStr ''log3'')]"

text \<open>
  Two pages of a result of 1500 events, cut short: the first holds two records with a
  line of two spaces between them, the second one record.
\<close>

definition first_page :: string where
  "first_page =
     long_meta_line @ [CHR 0x0A] @ log1_line @ [CHR 0x0A] @ ''  '' @ [CHR 0x0A] @ log2_line @
     [CHR 0x0A]"

definition second_page :: string where
  "second_page = long_meta_line @ [CHR 0x0A] @ log3_line @ [CHR 0x0A]"

text \<open>A page of one record whose time is a text that is no number.\<close>

definition bad_time_line :: string where
  \<open>bad_time_line = ''{"_time":"abc","message":"log1"}''\<close>

definition bad_time_json :: json where
  "bad_time_json = JObj [(''_time'', JStr ''abc''), (''message'', JStr ''log1'')]"

definition bad_time_page :: string where
  "bad_time_page = meta_line @ [CHR 0x0A] @ bad_time_line @ [CHR 0x0A]"

definition mock_parse :: "string \<Rightarrow> json option" where
  "mock_parse =
     map_of
       [(auth_body, JObj auth_json), (submit_body, JObj submit_json),
        (running_body, JObj running_json), (completed_body, JObj completed_json),
        (failed_body, JObj failed_json), (canceled_body, JObj canceled_json),
        (datasets_body, JObj datasets_json), (no_datasets_body, JObj [(''items'', JArr [])]),
        (meta_line, JObj meta_json), (log1_line, log1_json), (log2_line, log2_json),
        (failed_plain_body, JObj failed_plain_json), (long_meta_line, JObj long_meta_json),
        (log3_line, log3_json), (bad_time_line, bad_time_json)]"

text \<open>
  The library on the data of the tests: ASCII text, on which \<^verbatim>\<open>strip\<close> removes tab, line
  feed, vertical tab, form feed, carriage return, the separators \<^verbatim>\<open>0x1c\<close> to \<^verbatim>\<open>0x1f\<close>
  and the space; small whole numbers, on which the arithmetic of floats is exact;
  records that are objects, of which the data frame has the keys as columns, in the order
  of their first appearance; times that are whole seconds or missing, every other cell
  being refused, as pandas refuses a text that is no number.
\<close>

definition is_space :: "char \<Rightarrow> bool" where
  "is_space ch = (let n = (of_char ch :: nat) in (9 \<le> n \<and> n \<le> 13) \<or> (28 \<le> n \<and> n \<le> 32))"

definition ascii_strip :: "string \<Rightarrow> string" where
  "ascii_strip s = rev (dropWhile is_space (rev (dropWhile is_space s)))"

fun exact_add :: "pyfloat \<Rightarrow> pyfloat \<Rightarrow> pyfloat" where
  "exact_add (Finite x) (Finite y) = Finite (x + y)"
| "exact_add _ _ = NaN"

fun exact_sub :: "pyfloat \<Rightarrow> pyfloat \<Rightarrow> pyfloat" where
  "exact_sub (Finite x) (Finite y) = Finite (x - y)"
| "exact_sub _ _ = NaN"

fun object_keys :: "json \<Rightarrow> string list" where
  "object_keys (JObj kvs) = map fst kvs"
| "object_keys _ = []"

fun object_cell :: "string \<Rightarrow> json \<Rightarrow> cell" where
  "object_cell k (JObj kvs) = (case map_of kvs k of None \<Rightarrow> Missing | Some v \<Rightarrow> Value v)"
| "object_cell k _ = Missing"

fun is_object :: "json \<Rightarrow> bool" where
  "is_object (JObj kvs) = True"
| "is_object _ = False"

definition frame_of_objects :: "json list \<Rightarrow> error + frame" where
  "frame_of_objects records =
     (if list_all is_object records
      then Inr \<lparr>frame_columns =
                  map (\<lambda>k. (Name k, map (object_cell k) records))
                    (rev (remdups (rev (concat (map object_keys records))))),
                frame_len = length records\<rparr>
      else Inl ValueError)"

fun whole_seconds :: "cell list \<Rightarrow> error + cell list" where
  "whole_seconds [] = Inr []"
| "whole_seconds (Value (JInt n) # cells) =
     (case whole_seconds cells of Inl e \<Rightarrow> Inl e | Inr ts \<Rightarrow> Inr (Timestamp (of_int n) # ts))"
| "whole_seconds (Missing # cells) =
     (case whole_seconds cells of Inl e \<Rightarrow> Inl e | Inr ts \<Rightarrow> Inr (Missing # ts))"
| "whole_seconds (_ # cells) = Inl ValueError"

definition mock_lib :: pylib where
  "mock_lib =
     \<lparr>json_parse = mock_parse, str_strip = ascii_strip, str_json = (\<lambda>v. []),
      str_float = (\<lambda>x. if x = 5 then ''5'' else ''300.0''), str_builtin = (\<lambda>e. []),
      float_add = exact_add, float_sub = exact_sub,
      float_of_int = (\<lambda>n. Some (Finite (of_int n))),
      pd_DataFrame = frame_of_objects, pd_to_datetime = whole_seconds\<rparr>"

definition mock_response :: "nat \<Rightarrow> string \<Rightarrow> response" where
  "mock_response code body =
     \<lparr>status_code = code, reason = [], resp_url = [], resp_text = body\<rparr>"

definition mock_client :: client where
  "mock_client =
     \<lparr>config = \<lparr>client_id = ''id'', client_secret = ''secret'', org_id = ''test-org'',
                 workspace = ''test-workspace''\<rparr>,
      default_timeout = 300, token = JNull, token_expires_at = PInt 0\<rparr>"

definition mock_world :: "http_result list \<Rightarrow> world" where
  "mock_world rs =
     \<lparr>clock = (\<lambda>k. 1000 + 2 * real k), ticks = 0,
      replies = (\<lambda>k. if k < length rs then rs ! k else Transport_Failure ''Connection refused''),
      sent = [], slept = [], sleep_at = (\<lambda>k. 1001 + 2 * real k)\<rparr>"

text \<open>
  A world in which every status request takes ten seconds and is answered "running":
  the clock is read at 1000, 1012, \<dots>, and the sleeps begin at 1010, 1022, \<dots>
\<close>

definition slow_world :: world where
  "slow_world =
     \<lparr>clock = (\<lambda>k. 1000 + 12 * real k), ticks = 0,
      replies = (\<lambda>k. Response (mock_response 200 running_body)),
      sent = [], slept = [], sleep_at = (\<lambda>k. 1010 + 12 * real k)\<rparr>"

section \<open>Properties\<close>

subsection \<open>Configuration\<close>

lemma is_prefix_refl: "is_prefix xs xs"
  by (induction xs) simp_all

lemma contains_self: "contains xs xs"
  by (cases xs) (simp_all add: is_prefix_refl)

lemma contains_suffix: "contains (xs @ ys) ys"
  by (induction xs) (simp_all add: contains_self)

lemma missing_message_names:
  "\<forall>missing\<in>set (subseqs [''client_id'', ''client_secret'', ''org_id'', ''workspace'']).
     \<forall>field\<in>set [''client_id'', ''client_secret'', ''org_id'', ''workspace''].
       contains (missing_message missing) ([CHR 0x27] @ field @ [CHR 0x27]) =
       (field \<in> set missing)"
  by code_simp

text \<open>
  Claim C3, amended. For all four optional parameters and every environment,
  \<open>load_config\<close> resolves each field to the parameter when that is given and not empty,
  and to the environment variable of the field otherwise (also for a parameter that is
  the empty string). When no field is left without a value it returns the configuration
  of the four resolved values, none of them empty; otherwise it raises
  \<open>ConfigurationError\<close>, and its message holds the quoted name of a field exactly when
  that field is without a value; nothing is returned then.
\<close>

theorem load_config_complete_or_error:
  fixes env :: "string \<rightharpoonup> string" and cid cs oid ws :: "string option"
  defines "unset \<equiv> (\<lambda>p v. \<not> str_truthy p \<and> \<not> str_truthy (env v))"
  defines "missing \<equiv>
       (if unset cid ''CRIBL_CLIENT_ID'' then [''client_id''] else []) @
       (if unset cs ''CRIBL_CLIENT_SECRET'' then [''client_secret''] else []) @
       (if unset oid ''CRIBL_ORG_ID'' then [''org_id''] else []) @
       (if unset ws ''CRIBL_WORKSPACE'' then [''workspace''] else [])"
  defines "pick \<equiv> (\<lambda>p v. if str_truthy p then the p else the (env v))"
  shows "(missing = [] \<longrightarrow>
            load_config env cid cs oid ws =
              Inr \<lparr>client_id = pick cid ''CRIBL_CLIENT_ID'',
                   client_secret = pick cs ''CRIBL_CLIENT_SECRET'',
                   org_id = pick oid ''CRIBL_ORG_ID'',
                   workspace = pick ws ''CRIBL_WORKSPACE''\<rparr>
            \<and> pick cid ''CRIBL_CLIENT_ID'' \<noteq> [] \<and> pick cs ''CRIBL_CLIENT_SECRET'' \<noteq> []
            \<and> pick oid ''CRIBL_ORG_ID'' \<noteq> [] \<and> pick ws ''CRIBL_WORKSPACE'' \<noteq> [])
       \<and> (missing \<noteq> [] \<longrightarrow>
            (\<exists>msg. load_config env cid cs oid ws = Inl (ConfigurationError msg) \<and>
               is_prefix ''Missing required credentials: ['' msg \<and>
               (\<forall>field\<in>set [''client_id'', ''client_secret'', ''org_id'', ''workspace''].
                  contains msg ([CHR 0x27] @ field @ [CHR 0x27]) = (field \<in> set missing))))"
proof -
  have result: "(missing = [] \<longrightarrow>
            load_config env cid cs oid ws =
              Inr \<lparr>client_id = pick cid ''CRIBL_CLIENT_ID'',
                   client_secret = pick cs ''CRIBL_CLIENT_SECRET'',
                   org_id = pick oid ''CRIBL_ORG_ID'',
                   workspace = pick ws ''CRIBL_WORKSPACE''\<rparr>
            \<and> pick cid ''CRIBL_CLIENT_ID'' \<noteq> [] \<and> pick cs ''CRIBL_CLIENT_SECRET'' \<noteq> []
            \<and> pick oid ''CRIBL_ORG_ID'' \<noteq> [] \<and> pick ws ''CRIBL_WORKSPACE'' \<noteq> [])
       \<and> (missing \<noteq> [] \<longrightarrow>
            load_config env cid cs oid ws = Inl (ConfigurationError (missing_message missing)))"
    unfolding unset_def missing_def pick_def load_config_def Let_def py_or_def
    by (auto simp: str_truthy_def split: option.splits)
  have "missing \<in> set (subseqs [''client_id'', ''client_secret'', ''org_id'', ''workspace''])"
    unfolding missing_def by (simp add: Let_def)
  with missing_message_names
  have names: "\<forall>field\<in>set [''client_id'', ''client_secret'', ''org_id'', ''workspace''].
       contains (missing_message missing) ([CHR 0x27] @ field @ [CHR 0x27]) =
       (field \<in> set missing)"
    by blast
  have start: "is_prefix ''Missing required credentials: ['' (missing_message missing)"
    by (simp add: missing_message_def repr_list_def)
  from result names start show ?thesis
    by blast
qed

theorem load_config_complete_or_error_witness:
  "load_config [''CRIBL_CLIENT_ID'' \<mapsto> ''env-id'', ''CRIBL_CLIENT_SECRET'' \<mapsto> ''env-secret'',
                ''CRIBL_ORG_ID'' \<mapsto> ''env-org'', ''CRIBL_WORKSPACE'' \<mapsto> ''env-ws'']
               (Some ''explicit-id'') None None None =
     Inr \<lparr>client_id = ''explicit-id'', client_secret = ''env-secret'', org_id = ''env-org'',
          workspace = ''env-ws''\<rparr>
   \<and> (\<exists>msg. load_config [''CRIBL_ORG_ID'' \<mapsto> ''env-org''] None (Some ''s'') None None =
               Inl (ConfigurationError msg) \<and>
             contains msg ([CHR 0x27] @ ''client_id'' @ [CHR 0x27]) \<and>
             \<not> contains msg ([CHR 0x27] @ ''client_secret'' @ [CHR 0x27]) \<and>
             \<not> contains msg ([CHR 0x27] @ ''org_id'' @ [CHR 0x27]) \<and>
             contains msg ([CHR 0x27] @ ''workspace'' @ [CHR 0x27]))"
proof -
  from load_config_complete_or_error
          [of "Some ''explicit-id''"
              "[''CRIBL_CLIENT_ID'' \<mapsto> ''env-id'', ''CRIBL_CLIENT_SECRET'' \<mapsto> ''env-secret'',
                ''CRIBL_ORG_ID'' \<mapsto> ''env-org'', ''CRIBL_WORKSPACE'' \<mapsto> ''env-ws'']"
              None None None]
  have complete: "load_config [''CRIBL_CLIENT_ID'' \<mapsto> ''env-id'',
        ''CRIBL_CLIENT_SECRET'' \<mapsto> ''env-secret'', ''CRIBL_ORG_ID'' \<mapsto> ''env-org'',
        ''CRIBL_WORKSPACE'' \<mapsto> ''env-ws''] (Some ''explicit-id'') None None None =
     Inr \<lparr>client_id = ''explicit-id'', client_secret = ''env-secret'', org_id = ''env-org'',
          workspace = ''env-ws''\<rparr>"
    by (simp add: str_truthy_def)
  from load_config_complete_or_error
          [of None "[''CRIBL_ORG_ID'' \<mapsto> ''env-org'']" "Some ''s''" None None]
  obtain msg where "load_config [''CRIBL_ORG_ID'' \<mapsto> ''env-org''] None (Some ''s'') None None =
      Inl (ConfigurationError msg)"
    and "\<forall>field\<in>set [''client_id'', ''client_secret'', ''org_id'', ''workspace''].
           contains msg ([CHR 0x27] @ field @ [CHR 0x27]) =
           (field \<in> set [''client_id'', ''workspace''])"
    by (auto simp: str_truthy_def simp del: contains.simps)
  then have "\<exists>msg. load_config [''CRIBL_ORG_ID'' \<mapsto> ''env-org''] None (Some ''s'') None None =
               Inl (ConfigurationError msg) \<and>
             contains msg ([CHR 0x27] @ ''client_id'' @ [CHR 0x27]) \<and>
             \<not> contains msg ([CHR 0x27] @ ''client_secret'' @ [CHR 0x27]) \<and>
             \<not> contains msg ([CHR 0x27] @ ''org_id'' @ [CHR 0x27]) \<and>
             contains msg ([CHR 0x27] @ ''workspace'' @ [CHR 0x27])"
    by (intro exI [of _ msg]) (simp del: contains.simps)
  with complete show ?thesis
    by blast
qed

theorem load_config_empty_parameter_counterexample:
  "load_config [''CRIBL_CLIENT_ID'' \<mapsto> ''env-id'', ''CRIBL_CLIENT_SECRET'' \<mapsto> ''env-secret'',
                ''CRIBL_ORG_ID'' \<mapsto> ''env-org'', ''CRIBL_WORKSPACE'' \<mapsto> ''env-ws'']
               (Some []) None None None =
     Inr \<lparr>client_id = ''env-id'', client_secret = ''env-secret'', org_id = ''env-org'',
          workspace = ''env-ws''\<rparr>"
  by (simp add: load_config_def py_or_def str_truthy_def)

subsection \<open>Token cache\<close>

lemma authenticate_sent: "sent (snd (snd (authenticate L c w))) = sent w @ [auth_request c]"
  by (auto simp: authenticate_def send_def time_time_def Let_def
           split: http_result.splits sum.splits prod.splits)

lemma get_auth_token_cached:
  assumes "truthy (token c)" and "time_less (clock w (ticks w)) (expiry_limit L (token_expires_at c))"
  shows "get_auth_token L c w = (Inr (token c), c, w\<lparr>ticks := Suc (ticks w)\<rparr>)"
  using assms by (simp add: get_auth_token_def time_time_def)

lemma get_auth_token_exchange:
  assumes "\<not> (truthy (token c) \<and> time_less (clock w (ticks w)) (expiry_limit L (token_expires_at c)))"
  shows "get_auth_token L c w =
           (case authenticate L c (if truthy (token c) then w\<lparr>ticks := Suc (ticks w)\<rparr> else w) of
              (Inl e, c', w2) \<Rightarrow> (Inl e, c', w2)
            | (Inr u, c', w2) \<Rightarrow> (Inr (token c'), c', w2))"
  using assms
  by (auto simp: get_auth_token_def time_time_def Let_def)

lemma get_auth_token_exchange_sent:
  assumes "\<not> (truthy (token c) \<and> time_less (clock w (ticks w)) (expiry_limit L (token_expires_at c)))"
  shows "sent (snd (snd (get_auth_token L c w))) = sent w @ [auth_request c]"
  using authenticate_sent[of L c w] authenticate_sent[of L c "w\<lparr>ticks := Suc (ticks w)\<rparr>"]
  by (auto simp: get_auth_token_exchange[OF assms] split: prod.splits sum.splits)

lemma authenticate_success:
  assumes "replies w (length (sent w)) = Response resp" and "\<not> is_http_error resp"
    and "json_parse L (resp_text resp) = Some (JObj kvs)"
    and "map_of kvs ''access_token'' = Some tok"
    and "time_plus L (clock w (ticks w))
           (case map_of kvs ''expires_in'' of None \<Rightarrow> JInt 86400 | Some v \<Rightarrow> v) = Inr e"
  shows "authenticate L c w =
           (Inr (), c\<lparr>token := tok, token_expires_at := PFloat e\<rparr>,
            w\<lparr>sent := sent w @ [auth_request c], ticks := Suc (ticks w)\<rparr>)"
  using assms
  by (auto simp add: authenticate_def send_def time_time_def Let_def response_json_def
        json_loads_def split: option.splits)

lemma get_auth_token_success:
  assumes invalid: "\<not> (truthy (token c) \<and> time_less (clock w (ticks w)) (expiry_limit L (token_expires_at c)))"
    and reply: "replies w (length (sent w)) = Response resp" "\<not> is_http_error resp"
      "json_parse L (resp_text resp) = Some (JObj kvs)"
      "map_of kvs ''access_token'' = Some tok"
    and t: "t = (if truthy (token c) then Suc (ticks w) else ticks w)"
    and sum: "time_plus L (clock w t)
           (case map_of kvs ''expires_in'' of None \<Rightarrow> JInt 86400 | Some v \<Rightarrow> v) = Inr e"
  shows "get_auth_token L c w =
           (Inr tok, c\<lparr>token := tok, token_expires_at := PFloat e\<rparr>,
            w\<lparr>sent := sent w @ [auth_request c], ticks := Suc t\<rparr>)"
proof -
  let ?w = "if truthy (token c) then w\<lparr>ticks := Suc (ticks w)\<rparr> else w"
  have "authenticate L c ?w =
           (Inr (), c\<lparr>token := tok, token_expires_at := PFloat e\<rparr>,
            ?w\<lparr>sent := sent ?w @ [auth_request c], ticks := Suc (ticks ?w)\<rparr>)"
    by (rule authenticate_success[where resp = resp and kvs = kvs])
       (use reply sum t in \<open>simp_all split: if_splits\<close>)
  then show ?thesis
    unfolding get_auth_token_exchange[OF invalid] using t by (simp split: if_splits)
qed

lemma test_connection_sent:
  "sent (snd (snd (test_connection L c w))) = sent w @ [auth_request c]"
proof -
  let ?c = "c\<lparr>token := JNull, token_expires_at := PInt 0\<rparr>"
  have "sent (snd (snd (get_auth_token L ?c w))) = sent w @ [auth_request ?c]"
    by (rule get_auth_token_exchange_sent) simp
  moreover have "auth_request ?c = auth_request c"
    by (simp add: auth_request_def)
  ultimately show ?thesis
    by (auto simp: test_connection_def split: prod.splits sum.splits error.splits)
qed

text \<open>
  Claim C2. With \<open>valid\<close> for "a token is cached (\<^verbatim>\<open>self._token\<close> is truthy) and the
  clock reads less than \<^verbatim>\<open>expires_at - 300\<close>", the difference and the comparison being
  those of Python's numbers: when \<open>valid\<close>, \<open>get_auth_token\<close> returns the cached token
  and sends nothing (the world changes by the one clock reading only); when not
  \<open>valid\<close>, it sends exactly one authentication request; when that exchange is granted,
  the new token replaces the cached one and \<open>expires_at\<close> becomes the float sum of the
  clock reading of the exchange and \<^verbatim>\<open>expires_in\<close>, 86400 when the field is absent. So,
  from a fresh client, two calls of which the second is within the validity window of
  the stored expiry make one exchange, and \<open>test_connection\<close>, which first invalidates
  the cache, makes the second.
\<close>

theorem get_token_caching:
  fixes L :: pylib and c :: client and w :: world and resp :: response
    and kvs :: "(string \<times> json) list" and tok :: json and secs :: pyfloat
  defines "limit \<equiv>
      (\<lambda>expires. case expires of
         PInt n \<Rightarrow> PInt (n - 300)
       | PFloat y \<Rightarrow> PFloat (float_sub L y (Finite 300)))"
  defines "valid \<equiv> truthy (token c) \<and> time_less (clock w (ticks w)) (limit (token_expires_at c))"
  defines "t \<equiv> (if truthy (token c) then Suc (ticks w) else ticks w)"
  defines "granted \<equiv>
      replies w (length (sent w)) = Response resp \<and> \<not> is_http_error resp \<and>
      json_parse L (resp_text resp) = Some (JObj kvs) \<and>
      map_of kvs ''access_token'' = Some tok \<and>
      (case (case map_of kvs ''expires_in'' of None \<Rightarrow> JInt 86400 | Some v \<Rightarrow> v) of
         JInt n \<Rightarrow> float_of_int L n = Some secs
       | JFloat y \<Rightarrow> y = secs
       | _ \<Rightarrow> False)"
  defines "expiry \<equiv> (\<lambda>now. PFloat (float_add L (Finite now) secs))"
  shows "(valid \<longrightarrow> get_auth_token L c w = (Inr (token c), c, w\<lparr>ticks := Suc (ticks w)\<rparr>))
    \<and> (\<not> valid \<longrightarrow> sent (snd (snd (get_auth_token L c w))) = sent w @ [auth_request c])
    \<and> (\<not> valid \<and> granted \<longrightarrow>
          get_auth_token L c w =
            (Inr tok, c\<lparr>token := tok, token_expires_at := expiry (clock w t)\<rparr>,
             w\<lparr>sent := sent w @ [auth_request c], ticks := Suc t\<rparr>))
    \<and> (token c = JNull \<and> granted \<and> truthy tok \<and>
        time_less (clock w (Suc (ticks w))) (limit (expiry (clock w (ticks w)))) \<longrightarrow>
          (\<exists>c1 w1 w2 r3 c3 w3.
             get_auth_token L c w = (Inr tok, c1, w1) \<and>
             get_auth_token L c1 w1 = (Inr tok, c1, w2) \<and>
             sent w2 = sent w @ [auth_request c] \<and>
             test_connection L c1 w2 = (r3, c3, w3) \<and>
             sent w3 = sent w @ [auth_request c, auth_request c]))"
proof (intro conjI impI)
  have limit: "limit x = expiry_limit L x" for x
    by (simp add: limit_def expiry_limit_def TOKEN_REFRESH_BUFFER_def split: pynum.splits)
  have sum: "time_plus L now
      (case map_of kvs ''expires_in'' of None \<Rightarrow> JInt 86400 | Some v \<Rightarrow> v) =
      Inr (float_add L (Finite now) secs)" if granted for now
    using that unfolding granted_def
    by (cases "case map_of kvs ''expires_in'' of None \<Rightarrow> JInt 86400 | Some v \<Rightarrow> v")
       (auto split: option.splits)
  {
    assume valid
    then show "get_auth_token L c w = (Inr (token c), c, w\<lparr>ticks := Suc (ticks w)\<rparr>)"
      unfolding valid_def limit by (simp add: get_auth_token_cached)
  next
    assume "\<not> valid"
    then show "sent (snd (snd (get_auth_token L c w))) = sent w @ [auth_request c]"
      unfolding valid_def limit by (rule get_auth_token_exchange_sent)
  next
    assume a: "\<not> valid \<and> granted"
    with sum [of "clock w t"] show "get_auth_token L c w =
            (Inr tok, c\<lparr>token := tok, token_expires_at := expiry (clock w t)\<rparr>,
             w\<lparr>sent := sent w @ [auth_request c], ticks := Suc t\<rparr>)"
      unfolding valid_def granted_def limit expiry_def
      by (elim conjE) (rule get_auth_token_success [where resp = resp and kvs = kvs],
          simp_all add: t_def)
  next
    assume a: "token c = JNull \<and> granted \<and> truthy tok \<and>
        time_less (clock w (Suc (ticks w))) (limit (expiry (clock w (ticks w))))"
    let ?c1 = "c\<lparr>token := tok, token_expires_at := expiry (clock w (ticks w))\<rparr>"
    let ?w1 = "w\<lparr>sent := sent w @ [auth_request c], ticks := Suc (ticks w)\<rparr>"
    let ?w2 = "?w1\<lparr>ticks := Suc (ticks ?w1)\<rparr>"
    from a have t: "t = ticks w"
      by (simp add: t_def)
    from a sum [of "clock w (ticks w)"] have 1: "get_auth_token L c w = (Inr tok, ?c1, ?w1)"
      unfolding granted_def t expiry_def
      by (elim conjE) (rule get_auth_token_success [where resp = resp and kvs = kvs], simp_all)
    from a have 2: "get_auth_token L ?c1 ?w1 = (Inr (token ?c1), ?c1, ?w2)"
      unfolding limit by (intro get_auth_token_cached) simp_all
    have 3: "sent (snd (snd (test_connection L ?c1 ?w2))) = sent ?w2 @ [auth_request ?c1]"
      by (rule test_connection_sent)
    have 4: "auth_request ?c1 = auth_request c"
      by (simp add: auth_request_def)
    obtain r3 c3 w3 where 5: "test_connection L ?c1 ?w2 = (r3, c3, w3)"
      by (cases "test_connection L ?c1 ?w2") auto
    with 3 4 have "sent w3 = sent w @ [auth_request c, auth_request c]"
      by simp
    with 1 2 5 show "\<exists>c1 w1 w2 r3 c3 w3.
             get_auth_token L c w = (Inr tok, c1, w1) \<and>
             get_auth_token L c1 w1 = (Inr tok, c1, w2) \<and>
             sent w2 = sent w @ [auth_request c] \<and>
             test_connection L c1 w2 = (r3, c3, w3) \<and>
             sent w3 = sent w @ [auth_request c, auth_request c]"
      by (intro exI[of _ ?c1] exI[of _ ?w1] exI[of _ ?w2] exI[of _ r3] exI[of _ c3]
            exI[of _ w3]) simp
  }
qed

theorem get_token_caching_witness:
  "get_auth_token mock_lib mock_client (mock_world [Response (mock_response 200 auth_body)]) =
     (Inr (JStr ''mock-token-12345''),
      mock_client\<lparr>token := JStr ''mock-token-12345'',
                   token_expires_at := PFloat (Finite 87400)\<rparr>,
      (mock_world [Response (mock_response 200 auth_body)])
         \<lparr>sent := [auth_request mock_client], ticks := 1\<rparr>)
   \<and> get_auth_token mock_lib
        (mock_client\<lparr>token := JStr ''mock-token-12345'',
                      token_expires_at := PFloat (Finite 87400)\<rparr>)
        (mock_world []) =
     (Inr (JStr ''mock-token-12345''),
      mock_client\<lparr>token := JStr ''mock-token-12345'',
                   token_expires_at := PFloat (Finite 87400)\<rparr>,
      (mock_world [])\<lparr>ticks := 1\<rparr>)
   \<and> sent (snd (snd (get_auth_token mock_lib
        (mock_client\<lparr>token := JStr ''mock-token-12345'',
                      token_expires_at := PFloat (Finite 1200)\<rparr>)
        (mock_world [])))) =
     [auth_request mock_client]
   \<and> (\<exists>c1 w1 w2 r3 c3 w3.
         get_auth_token mock_lib mock_client
           (mock_world [Response (mock_response 200 auth_body)]) =
           (Inr (JStr ''mock-token-12345''), c1, w1) \<and>
         get_auth_token mock_lib c1 w1 = (Inr (JStr ''mock-token-12345''), c1, w2) \<and>
         sent w2 = [auth_request mock_client] \<and>
         test_connection mock_lib c1 w2 = (r3, c3, w3) \<and>
         sent w3 = [auth_request mock_client, auth_request mock_client])"
proof -
  let ?w = "mock_world [Response (mock_response 200 auth_body)]"
  let ?tok = "JStr ''mock-token-12345''"
  let ?c = "mock_client\<lparr>token := ?tok, token_expires_at := PFloat (Finite 87400)\<rparr>"
  let ?old = "mock_client\<lparr>token := ?tok, token_expires_at := PFloat (Finite 1200)\<rparr>"
  have fresh: "token mock_client = JNull" "\<not> truthy (token mock_client)"
    by (simp_all add: mock_client_def)
  have granted: "replies ?w (length (sent ?w)) = Response (mock_response 200 auth_body)"
    "\<not> is_http_error (mock_response 200 auth_body)"
    "json_parse mock_lib (resp_text (mock_response 200 auth_body)) = Some (JObj auth_json)"
    "map_of auth_json ''access_token'' = Some ?tok"
    "(case (case map_of auth_json ''expires_in'' of None \<Rightarrow> JInt 86400 | Some v \<Rightarrow> v) of
         JInt n \<Rightarrow> float_of_int mock_lib n = Some (Finite 86400)
       | JFloat y \<Rightarrow> y = Finite 86400
       | _ \<Rightarrow> False)"
    by (simp_all add: mock_world_def mock_response_def mock_lib_def mock_parse_def
          auth_json_def is_http_error_def)
  have sums: "float_add mock_lib (Finite 1000) (Finite 86400) = Finite 87400"
    "float_sub mock_lib (Finite 87400) (Finite 300) = Finite 87100"
    "float_sub mock_lib (Finite 1200) (Finite 300) = Finite 900"
    by (simp_all add: mock_lib_def)
  have clocks: "clock (mock_world rs) 0 = 1000" "clock (mock_world rs) (Suc 0) = 1002"
    "sent (mock_world rs) = []" "ticks (mock_world rs) = 0" for rs
    by (simp_all add: mock_world_def)
  note first =
    get_token_caching
      [where L = mock_lib and c = mock_client and w = ?w
         and resp = "mock_response 200 auth_body" and kvs = auth_json and tok = ?tok
         and secs = "Finite 86400"]
  note second = get_token_caching [where L = mock_lib and c = ?c and w = "mock_world []"]
  note third = get_token_caching [where L = mock_lib and c = ?old and w = "mock_world []"]
  from first fresh granted have a: "get_auth_token mock_lib mock_client ?w =
     (Inr ?tok, ?c, ?w\<lparr>sent := [auth_request mock_client], ticks := 1\<rparr>)"
    by (simp add: clocks sums)
  from second have b: "get_auth_token mock_lib ?c (mock_world []) =
     (Inr ?tok, ?c, (mock_world [])\<lparr>ticks := 1\<rparr>)"
    by (simp add: clocks sums)
  from third have c: "sent (snd (snd (get_auth_token mock_lib ?old (mock_world [])))) =
     [auth_request mock_client]"
    by (simp add: clocks sums auth_request_def)
  have window: "truthy ?tok"
    "time_less (clock ?w (Suc (ticks ?w)))
       (case PFloat (float_add mock_lib (Finite (clock ?w (ticks ?w))) (Finite 86400)) of
          PInt n \<Rightarrow> PInt (n - 300)
        | PFloat y \<Rightarrow> PFloat (float_sub mock_lib y (Finite 300)))"
    by (simp_all add: clocks sums)
  from first fresh(1) granted window have d: "\<exists>c1 w1 w2 r3 c3 w3.
         get_auth_token mock_lib mock_client ?w = (Inr ?tok, c1, w1) \<and>
         get_auth_token mock_lib c1 w1 = (Inr ?tok, c1, w2) \<and>
         sent w2 = sent ?w @ [auth_request mock_client] \<and>
         test_connection mock_lib c1 w2 = (r3, c3, w3) \<and>
         sent w3 = sent ?w @ [auth_request mock_client, auth_request mock_client]"
    by blast
  from a b c d show ?thesis
    by (simp add: clocks)
qed

subsection \<open>Job submission\<close>

text \<open>
  Claim C4, amended. Once the headers are there, \<open>submit_job\<close> raises \<open>QueryError\<close>
  whose message ends with the response body when the status is 400,
  \<open>AuthenticationError\<close> when it is 401, and \<open>QueryError\<close> for every other status that
  \<^verbatim>\<open>raise_for_status\<close> rejects (400 to 599) and for a transport failure; on a response that
  is not rejected it returns the \<^verbatim>\<open>id\<close> of the first item of \<^verbatim>\<open>items\<close>. A status outside
  200 to 299 that \<^verbatim>\<open>raise_for_status\<close> lets through, such as 300, is handled as a success.
\<close>

theorem submit_job_outcomes:
  fixes L :: pylib and c c' :: client and w w' :: world and resp :: response
    and q earliest latest :: string
  assumes headers: "get_headers L c w = (Inr hdrs, c', w')"
  defines "r \<equiv> replies w' (length (sent w'))"
  defines "result \<equiv> fst (submit_job L c q earliest latest w)"
  shows "(r = Response resp \<and> status_code resp = 400 \<longrightarrow>
            result = Inl (QueryError (''Invalid query syntax: '' @ resp_text resp) None) \<and>
            contains (''Invalid query syntax: '' @ resp_text resp) (resp_text resp))
       \<and> (r = Response resp \<and> status_code resp = 401 \<longrightarrow>
            result = Inl (AuthenticationError ''Authentication failed''))
       \<and> (r = Response resp \<and> is_http_error resp \<and> status_code resp \<noteq> 400 \<and>
          status_code resp \<noteq> 401 \<longrightarrow>
            result = Inl (QueryError (''Job submission failed: '' @ http_error_str resp) None))
       \<and> (r = Transport_Failure m \<longrightarrow>
            result = Inl (QueryError (''Job submission failed: '' @ m) None))
       \<and> (r = Response resp \<and> \<not> is_http_error resp \<and>
          json_parse L (resp_text resp) = Some (JObj kvs) \<and>
          map_of kvs ''items'' = Some (JArr (JObj ikvs # rest)) \<and> map_of ikvs ''id'' = Some v \<longrightarrow>
            result = Inr v)"
proof -
  have "contains (''Invalid query syntax: '' @ resp_text resp) (resp_text resp)"
    by (rule contains_suffix)
  moreover have "r = Response resp \<and> status_code resp = 400 \<longrightarrow>
            result = Inl (QueryError (''Invalid query syntax: '' @ resp_text resp) None)"
    unfolding r_def result_def
    by (simp add: submit_job_def headers send_def Let_def)
  moreover have "r = Response resp \<and> status_code resp = 401 \<longrightarrow>
            result = Inl (AuthenticationError ''Authentication failed'')"
    unfolding r_def result_def
    by (simp add: submit_job_def headers send_def Let_def is_http_error_def)
  moreover have "r = Response resp \<and> is_http_error resp \<and> status_code resp \<noteq> 400 \<and>
          status_code resp \<noteq> 401 \<longrightarrow>
            result = Inl (QueryError (''Job submission failed: '' @ http_error_str resp) None)"
    unfolding r_def result_def
    by (simp add: submit_job_def headers send_def Let_def)
  moreover have "r = Transport_Failure m \<longrightarrow>
            result = Inl (QueryError (''Job submission failed: '' @ m) None)"
    unfolding r_def result_def
    by (simp add: submit_job_def headers send_def Let_def)
  moreover have "r = Response resp \<and> \<not> is_http_error resp \<and>
          json_parse L (resp_text resp) = Some (JObj kvs) \<and>
          map_of kvs ''items'' = Some (JArr (JObj ikvs # rest)) \<and> map_of ikvs ''id'' = Some v \<longrightarrow>
            result = Inr v"
    unfolding r_def result_def
    by (auto simp: submit_job_def headers send_def Let_def is_http_error_def
          response_json_def json_loads_def)
  ultimately show ?thesis
    by blast
qed

lemma mock_headers:
  "get_headers mock_lib mock_client (mock_world (Response (mock_response 200 auth_body) # rs)) =
     (Inr [(''Authorization'', ''Bearer mock-token-12345''),
           (''Content-Type'', ''application/json'')],
      mock_client\<lparr>token := JStr ''mock-token-12345'',
                   token_expires_at := PFloat (Finite 87400)\<rparr>,
      (mock_world (Response (mock_response 200 auth_body) # rs))
        \<lparr>sent := [auth_request mock_client], ticks := 1\<rparr>)"
  by (simp add: get_headers_def get_auth_token_def authenticate_def send_def time_time_def
        mock_client_def mock_world_def mock_response_def mock_lib_def mock_parse_def
        auth_json_def is_http_error_def response_json_def json_loads_def Let_def py_str_def)

theorem submit_job_outcomes_witness:
  "fst (submit_job mock_lib mock_client ''bad query'' ''-1h'' ''now''
          (mock_world [Response (mock_response 200 auth_body),
                       Response (mock_response 400 ''Invalid query syntax'')])) =
     Inl (QueryError ''Invalid query syntax: Invalid query syntax'' None)
   \<and> fst (submit_job mock_lib mock_client ''q'' ''-1h'' ''now''
          (mock_world [Response (mock_response 200 auth_body),
                       Response (mock_response 401 [])])) =
     Inl (AuthenticationError ''Authentication failed'')
   \<and> fst (submit_job mock_lib mock_client ''q'' ''-1h'' ''now''
          (mock_world [Response (mock_response 200 auth_body),
                       Response (mock_response 503 [])])) =
     Inl (QueryError (''Job submission failed: '' @ http_error_str (mock_response 503 [])) None)
   \<and> fst (submit_job mock_lib mock_client ''q'' ''-1h'' ''now''
          (mock_world [Response (mock_response 200 auth_body),
                       Transport_Failure ''Connection refused''])) =
     Inl (QueryError ''Job submission failed: Connection refused'' None)
   \<and> fst (submit_job mock_lib mock_client ''q'' ''-1h'' ''now''
          (mock_world [Response (mock_response 200 auth_body),
                       Response (mock_response 200 submit_body)])) =
     Inr (JStr ''job-123'')"
proof -
  have parsed: "json_parse mock_lib (resp_text (mock_response 200 submit_body)) =
      Some (JObj submit_json)"
    by (simp add: mock_lib_def mock_parse_def mock_response_def auth_body_def submit_body_def)
  have item: "map_of submit_json ''items'' = Some (JArr (JObj [(''id'', JStr ''job-123'')] # []))"
    "map_of [(''id'', JStr ''job-123'')] ''id'' = Some (JStr ''job-123'')"
    by (simp_all add: submit_json_def)
  have codes: "status_code (mock_response 400 ''Invalid query syntax'') = 400"
    "resp_text (mock_response 400 ''Invalid query syntax'') = ''Invalid query syntax''"
    "status_code (mock_response 401 []) = 401"
    "is_http_error (mock_response 503 [])" "status_code (mock_response 503 []) = 503"
    "\<not> is_http_error (mock_response 200 submit_body)"
    by (simp_all add: mock_response_def is_http_error_def)
  from submit_job_outcomes
         [OF mock_headers [of "[Response (mock_response 400 ''Invalid query syntax'')]"],
          where resp = "mock_response 400 ''Invalid query syntax''"] codes
  have 1: "fst (submit_job mock_lib mock_client ''bad query'' ''-1h'' ''now''
          (mock_world [Response (mock_response 200 auth_body),
                       Response (mock_response 400 ''Invalid query syntax'')])) =
     Inl (QueryError ''Invalid query syntax: Invalid query syntax'' None)"
    by (simp add: mock_world_def)
  from submit_job_outcomes
         [OF mock_headers [of "[Response (mock_response 401 [])]"],
          where resp = "mock_response 401 []"] codes
  have 2: "fst (submit_job mock_lib mock_client ''q'' ''-1h'' ''now''
          (mock_world [Response (mock_response 200 auth_body),
                       Response (mock_response 401 [])])) =
     Inl (AuthenticationError ''Authentication failed'')"
    by (simp add: mock_world_def)
  from submit_job_outcomes
         [OF mock_headers [of "[Response (mock_response 503 [])]"],
          where resp = "mock_response 503 []"] codes
  have 3: "fst (submit_job mock_lib mock_client ''q'' ''-1h'' ''now''
          (mock_world [Response (mock_response 200 auth_body),
                       Response (mock_response 503 [])])) =
     Inl (QueryError (''Job submission failed: '' @ http_error_str (mock_response 503 [])) None)"
    by (simp add: mock_world_def)
  from submit_job_outcomes
         [OF mock_headers [of "[Transport_Failure ''Connection refused'']"],
          where m = "''Connection refused''"]
  have 4: "fst (submit_job mock_lib mock_client ''q'' ''-1h'' ''now''
          (mock_world [Response (mock_response 200 auth_body),
                       Transport_Failure ''Connection refused''])) =
     Inl (QueryError ''Job submission failed: Connection refused'' None)"
    by (simp add: mock_world_def)
  from submit_job_outcomes
         [OF mock_headers [of "[Response (mock_response 200 submit_body)]"],
          where resp = "mock_response 200 submit_body" and kvs = submit_json
      and ikvs = "[(''id'', JStr ''job-123'')]" and rest = "[]" and v = "JStr ''job-123''"]
    codes parsed item
  have 5: "fst (submit_job mock_lib mock_client ''q'' ''-1h'' ''now''
          (mock_world [Response (mock_response 200 auth_body),
                       Response (mock_response 200 submit_body)])) =
     Inr (JStr ''job-123'')"
    by (simp add: mock_world_def)
  from 1 2 3 4 5 show ?thesis
    by simp
qed

theorem submit_job_status_300_counterexample:
  "status_code (mock_response 300 submit_body) = 300
   \<and> fst (submit_job mock_lib mock_client ''q'' ''-1h'' ''now''
          (mock_world [Response (mock_response 200 auth_body),
                       Response (mock_response 300 submit_body)])) =
     Inr (JStr ''job-123'')"
  unfolding submit_job_def mock_headers
  by (simp add: send_def mock_world_def mock_response_def is_http_error_def response_json_def
        json_loads_def mock_lib_def mock_parse_def auth_body_def submit_body_def
        submit_json_def Let_def)

subsection \<open>Dataset listing\<close>

lemma dataset_name_object:
  "dataset_name (JObj kvs) =
     Inr (case map_of kvs ''id'' of
            Some v \<Rightarrow> if truthy v then v
                      else (case map_of kvs ''name'' of Some n \<Rightarrow> n | None \<Rightarrow> JStr [])
          | None \<Rightarrow> (case map_of kvs ''name'' of Some n \<Rightarrow> n | None \<Rightarrow> JStr []))"
  by (simp add: dataset_name_def split: option.splits)

text \<open>
  Claim C8. Once the headers are there, \<open>list_datasets\<close> raises \<open>AuthenticationError\<close> when
  the request ends with status 401 and \<open>QueryError\<close> when it ends with any other error
  status or with a transport failure. On a response that is not rejected and whose
  \<^verbatim>\<open>items\<close> are objects it returns, item by item and in order, the \<^verbatim>\<open>id\<close> when that is
  present and truthy, else the \<^verbatim>\<open>name\<close> when present, else the empty string; with no
  items the result is the empty list.
\<close>

theorem list_datasets_outcomes:
  fixes L :: pylib and c c' :: client and w w' :: world and resp :: response
  assumes headers: "get_headers L c w = (Inr hdrs, c', w')"
  defines "r \<equiv> replies w' (length (sent w'))"
  defines "result \<equiv> fst (list_datasets L c w)"
  defines "name_or_empty \<equiv>
     (\<lambda>kvs. case map_of kvs ''name'' of Some n \<Rightarrow> n | None \<Rightarrow> JStr [])"
  shows "(r = Response resp \<and> status_code resp = 401 \<longrightarrow>
            result = Inl (AuthenticationError ''Authentication failed''))
       \<and> (r = Response resp \<and> is_http_error resp \<and> status_code resp \<noteq> 401 \<longrightarrow>
            result = Inl (QueryError (''Failed to list datasets: '' @ http_error_str resp) None))
       \<and> (r = Transport_Failure m \<longrightarrow>
            result = Inl (QueryError (''Failed to list datasets: '' @ m) None))
       \<and> (r = Response resp \<and> \<not> is_http_error resp \<and>
          json_parse L (resp_text resp) = Some (JObj kvs) \<and>
          map_of kvs ''items'' = Some (JArr (map JObj items)) \<longrightarrow>
            result =
              Inr (map (\<lambda>item. case map_of item ''id'' of
                                  Some v \<Rightarrow> if truthy v then v else name_or_empty item
                                | None \<Rightarrow> name_or_empty item) items))
       \<and> (r = Response resp \<and> \<not> is_http_error resp \<and>
          json_parse L (resp_text resp) = Some (JObj kvs) \<and>
          (map_of kvs ''items'' = Some (JArr []) \<or> map_of kvs ''items'' = None) \<longrightarrow>
            result = Inr [])"
proof -
  have names: "dataset_names (map JObj items) =
      Inr (map (\<lambda>item. case map_of item ''id'' of
                          Some v \<Rightarrow> if truthy v then v else name_or_empty item
                        | None \<Rightarrow> name_or_empty item) items)"
    unfolding name_or_empty_def
    by (induction items) (simp_all add: dataset_name_object)
  have "r = Response resp \<and> status_code resp = 401 \<longrightarrow>
            result = Inl (AuthenticationError ''Authentication failed'')"
    unfolding r_def result_def
    by (simp add: list_datasets_def headers send_def Let_def is_http_error_def)
  moreover have "r = Response resp \<and> is_http_error resp \<and> status_code resp \<noteq> 401 \<longrightarrow>
            result = Inl (QueryError (''Failed to list datasets: '' @ http_error_str resp) None)"
    unfolding r_def result_def
    by (simp add: list_datasets_def headers send_def Let_def)
  moreover have "r = Transport_Failure m \<longrightarrow>
            result = Inl (QueryError (''Failed to list datasets: '' @ m) None)"
    unfolding r_def result_def
    by (simp add: list_datasets_def headers send_def Let_def)
  moreover have "r = Response resp \<and> \<not> is_http_error resp \<and>
          json_parse L (resp_text resp) = Some (JObj kvs) \<and>
          map_of kvs ''items'' = Some (JArr (map JObj items)) \<longrightarrow>
            result =
              Inr (map (\<lambda>item. case map_of item ''id'' of
                                  Some v \<Rightarrow> if truthy v then v else name_or_empty item
                                | None \<Rightarrow> name_or_empty item) items)"
    unfolding r_def result_def
    by (simp add: list_datasets_def headers send_def Let_def response_json_def json_loads_def
          names)
  moreover have "r = Response resp \<and> \<not> is_http_error resp \<and>
          json_parse L (resp_text resp) = Some (JObj kvs) \<and>
          (map_of kvs ''items'' = Some (JArr []) \<or> map_of kvs ''items'' = None) \<longrightarrow>
            result = Inr []"
    unfolding r_def result_def
    by (auto simp: list_datasets_def headers send_def Let_def response_json_def json_loads_def)
  ultimately show ?thesis
    by blast
qed


theorem list_datasets_outcomes_witness:
  "fst (list_datasets mock_lib mock_client
          (mock_world [Response (mock_response 200 auth_body), Response (mock_response 401 [])])) =
     Inl (AuthenticationError ''Authentication failed'')
   \<and> fst (list_datasets mock_lib mock_client
          (mock_world [Response (mock_response 200 auth_body), Response (mock_response 500 [])])) =
     Inl (QueryError (''Failed to list datasets: '' @ http_error_str (mock_response 500 [])) None)
   \<and> fst (list_datasets mock_lib mock_client
          (mock_world [Response (mock_response 200 auth_body),
                       Transport_Failure ''Connection refused''])) =
     Inl (QueryError ''Failed to list datasets: Connection refused'' None)
   \<and> fst (list_datasets mock_lib mock_client
          (mock_world [Response (mock_response 200 auth_body),
                       Response (mock_response 200 datasets_body)])) =
     Inr [JStr ''cribl_logs'', JStr ''firewall'', JStr []]
   \<and> fst (list_datasets mock_lib mock_client
          (mock_world [Response (mock_response 200 auth_body),
                       Response (mock_response 200 no_datasets_body)])) =
     Inr []"
proof -
  have parsed:
    "json_parse mock_lib (resp_text (mock_response 200 datasets_body)) = Some (JObj datasets_json)"
    "json_parse mock_lib (resp_text (mock_response 200 no_datasets_body)) =
       Some (JObj [(''items'', JArr [])])"
    by (simp_all add: mock_lib_def mock_parse_def mock_response_def auth_body_def
          submit_body_def running_body_def completed_body_def failed_body_def
          canceled_body_def datasets_body_def no_datasets_body_def)
  have items: "map_of datasets_json ''items'' =
      Some (JArr (map JObj [[(''id'', JStr ''cribl_logs'')], [(''name'', JStr ''firewall'')], []]))"
    by (simp add: datasets_json_def)
  have codes: "status_code (mock_response 401 []) = 401"
    "is_http_error (mock_response 500 [])" "status_code (mock_response 500 []) = 500"
    "\<not> is_http_error (mock_response 200 datasets_body)"
    "\<not> is_http_error (mock_response 200 no_datasets_body)"
    by (simp_all add: mock_response_def is_http_error_def)
  from list_datasets_outcomes
         [OF mock_headers [of "[Response (mock_response 401 [])]"],
          where resp = "mock_response 401 []"] codes
  have 1: "fst (list_datasets mock_lib mock_client
          (mock_world [Response (mock_response 200 auth_body), Response (mock_response 401 [])])) =
     Inl (AuthenticationError ''Authentication failed'')"
    by (simp add: mock_world_def)
  from list_datasets_outcomes
         [OF mock_headers [of "[Response (mock_response 500 [])]"],
          where resp = "mock_response 500 []"] codes
  have 2: "fst (list_datasets mock_lib mock_client
          (mock_world [Response (mock_response 200 auth_body), Response (mock_response 500 [])])) =
     Inl (QueryError (''Failed to list datasets: '' @ http_error_str (mock_response 500 [])) None)"
    by (simp add: mock_world_def)
  from list_datasets_outcomes
         [OF mock_headers [of "[Transport_Failure ''Connection refused'']"],
          where m = "''Connection refused''"]
  have 3: "fst (list_datasets mock_lib mock_client
          (mock_world [Response (mock_response 200 auth_body),
                       Transport_Failure ''Connection refused''])) =
     Inl (QueryError ''Failed to list datasets: Connection refused'' None)"
    by (simp add: mock_world_def)
  from list_datasets_outcomes
         [OF mock_headers [of "[Response (mock_response 200 datasets_body)]"],
          where resp = "mock_response 200 datasets_body" and kvs = datasets_json
            and items = "[[(''id'', JStr ''cribl_logs'')], [(''name'', JStr ''firewall'')], []]"]
       codes parsed items
  have 4: "fst (list_datasets mock_lib mock_client
          (mock_world [Response (mock_response 200 auth_body),
                       Response (mock_response 200 datasets_body)])) =
     Inr [JStr ''cribl_logs'', JStr ''firewall'', JStr []]"
    by (simp add: mock_world_def)
  from list_datasets_outcomes
         [OF mock_headers [of "[Response (mock_response 200 no_datasets_body)]"],
          where resp = "mock_response 200 no_datasets_body"
            and kvs = "[(''items'', JArr [])]"]
       codes parsed
  have 5: "fst (list_datasets mock_lib mock_client
          (mock_world [Response (mock_response 200 auth_body),
                       Response (mock_response 200 no_datasets_body)])) =
     Inr []"
    by (simp add: mock_world_def)
  from 1 2 3 4 5 show ?thesis
    by simp
qed

subsection \<open>Polling\<close>

lemma wait_loop_deadline:
  assumes "clock w (ticks w) - start_time > tmo"
  shows "wait_loop L job_id tmo hdrs url start_time w =
           Some (Inl (TimeoutError (timeout_message L tmo)), w\<lparr>ticks := Suc (ticks w)\<rparr>)"
  using assms by (subst wait_loop.simps) (simp add: time_time_def)

lemma wait_loop_transport_failure:
  assumes "\<not> clock w (ticks w) - start_time > tmo"
    and "replies w (length (sent w)) = Transport_Failure m"
  shows "wait_loop L job_id tmo hdrs url start_time w =
           Some (Inl (QueryError (''Failed to check job status: '' @ m) None),
                 w\<lparr>ticks := Suc (ticks w), sent := sent w @ [status_request hdrs url]\<rparr>)"
  using assms by (subst wait_loop.simps) (simp add: time_time_def send_def)

lemma wait_loop_http_error:
  assumes "\<not> clock w (ticks w) - start_time > tmo"
    and "replies w (length (sent w)) = Response resp" and "is_http_error resp"
  shows "wait_loop L job_id tmo hdrs url start_time w =
           Some (Inl (QueryError (''Failed to check job status: '' @ http_error_str resp) None),
                 w\<lparr>ticks := Suc (ticks w), sent := sent w @ [status_request hdrs url]\<rparr>)"
  using assms by (subst wait_loop.simps) (simp add: time_time_def send_def)

lemma wait_loop_status:
  assumes "\<not> clock w (ticks w) - start_time > tmo"
    and "replies w (length (sent w)) = Response resp" and "\<not> is_http_error resp"
    and "json_parse L (resp_text resp) = Some (JObj kvs)"
    and "map_of kvs ''items'' = Some (JArr (JObj item # rest))"
    and "map_of item ''status'' = Some status"
    and "w2 = w\<lparr>ticks := Suc (ticks w), sent := sent w @ [status_request hdrs url]\<rparr>"
  shows "wait_loop L job_id tmo hdrs url start_time w =
           (if status = JStr ''completed'' then Some (Inr (), w2)
            else if status = JStr ''failed''
            then Some (Inl (QueryError
                        (''Query failed: '' @
                         py_str L (case map_of item ''error'' of
                                     None \<Rightarrow> JStr ''Unknown error'' | Some e \<Rightarrow> e))
                        (Some job_id)), w2)
            else if status = JStr ''canceled''
            then Some (Inl (QueryError ''Query was canceled'' (Some job_id)), w2)
            else wait_loop L job_id tmo hdrs url start_time (time_sleep POLL_INTERVAL w2))"
  using assms
  by (subst wait_loop.simps)
     (simp add: time_time_def send_def response_json_def json_loads_def split: option.splits)


lemma wait_loop_pending_then_deadline:
  fixes resp :: "nat \<Rightarrow> response" and status :: "nat \<Rightarrow> json"
  assumes "\<forall>k<n. \<not> clock w (ticks w + k) - start_time > tmo"
    and "\<forall>k<n. replies w (length (sent w) + k) = Response (resp k) \<and> \<not> is_http_error (resp k) \<and>
           json_parse L (resp_text (resp k)) = Some (JObj (kvs k)) \<and>
           map_of (kvs k) ''items'' = Some (JArr (JObj (item k) # rest k)) \<and>
           map_of (item k) ''status'' = Some (status k) \<and>
           status k \<noteq> JStr ''completed'' \<and> status k \<noteq> JStr ''failed'' \<and>
           status k \<noteq> JStr ''canceled''"
    and "clock w (ticks w + n) - start_time > tmo"
  shows "wait_loop L job_id tmo hdrs url start_time w =
           Some (Inl (TimeoutError (timeout_message L tmo)),
                 w\<lparr>ticks := ticks w + n + 1,
                   sent := sent w @ replicate n (status_request hdrs url),
                   slept := slept w @ replicate n POLL_INTERVAL\<rparr>)"
  using assms
proof (induction n arbitrary: w resp kvs item rest status)
  case 0
  then show ?case
    by (simp add: wait_loop_deadline)
next
  case (Suc n)
  let ?w2 = "w\<lparr>ticks := Suc (ticks w), sent := sent w @ [status_request hdrs url]\<rparr>"
  let ?w' = "time_sleep POLL_INTERVAL ?w2"
  from Suc.prems(1) have in_time: "\<not> clock w (ticks w) - start_time > tmo"
    by force
  from Suc.prems(2) have first: "replies w (length (sent w)) = Response (resp 0)"
    "\<not> is_http_error (resp 0)" "json_parse L (resp_text (resp 0)) = Some (JObj (kvs 0))"
    "map_of (kvs 0) ''items'' = Some (JArr (JObj (item 0) # rest 0))"
    "map_of (item 0) ''status'' = Some (status 0)"
    "status 0 \<noteq> JStr ''completed''" "status 0 \<noteq> JStr ''failed''" "status 0 \<noteq> JStr ''canceled''"
    by force+
  have step: "wait_loop L job_id tmo hdrs url start_time w =
              wait_loop L job_id tmo hdrs url start_time ?w'"
    using wait_loop_status [OF in_time first(1-5) refl, of job_id hdrs url] first(6-8)
    by simp
  have "wait_loop L job_id tmo hdrs url start_time ?w' =
           Some (Inl (TimeoutError (timeout_message L tmo)),
                 ?w'\<lparr>ticks := ticks ?w' + n + 1,
                   sent := sent ?w' @ replicate n (status_request hdrs url),
                   slept := slept ?w' @ replicate n POLL_INTERVAL\<rparr>)"
  proof (rule Suc.IH [where resp = "\<lambda>k. resp (Suc k)" and kvs = "\<lambda>k. kvs (Suc k)"
        and item = "\<lambda>k. item (Suc k)" and rest = "\<lambda>k. rest (Suc k)"
        and status = "\<lambda>k. status (Suc k)"])
    show "\<forall>k<n. \<not> clock ?w' (ticks ?w' + k) - start_time > tmo"
      using Suc.prems(1) by (auto simp: time_sleep_def)
    show "\<forall>k<n. replies ?w' (length (sent ?w') + k) = Response (resp (Suc k)) \<and>
           \<not> is_http_error (resp (Suc k)) \<and>
           json_parse L (resp_text (resp (Suc k))) = Some (JObj (kvs (Suc k))) \<and>
           map_of (kvs (Suc k)) ''items'' = Some (JArr (JObj (item (Suc k)) # rest (Suc k))) \<and>
           map_of (item (Suc k)) ''status'' = Some (status (Suc k)) \<and>
           status (Suc k) \<noteq> JStr ''completed'' \<and> status (Suc k) \<noteq> JStr ''failed'' \<and>
           status (Suc k) \<noteq> JStr ''canceled''"
    proof (intro allI impI)
      fix k
      assume "k < n"
      then have "Suc k < Suc n"
        by simp
      from Suc.prems(2) [rule_format, OF this] show "replies ?w' (length (sent ?w') + k) =
             Response (resp (Suc k)) \<and>
           \<not> is_http_error (resp (Suc k)) \<and>
           json_parse L (resp_text (resp (Suc k))) = Some (JObj (kvs (Suc k))) \<and>
           map_of (kvs (Suc k)) ''items'' = Some (JArr (JObj (item (Suc k)) # rest (Suc k))) \<and>
           map_of (item (Suc k)) ''status'' = Some (status (Suc k)) \<and>
           status (Suc k) \<noteq> JStr ''completed'' \<and> status (Suc k) \<noteq> JStr ''failed'' \<and>
           status (Suc k) \<noteq> JStr ''canceled''"
        by (simp add: time_sleep_def)
    qed
    show "clock ?w' (ticks ?w' + n) - start_time > tmo"
      using Suc.prems(3) by (simp add: time_sleep_def)
  qed
  then show ?case
    unfolding step by (simp add: time_sleep_def replicate_append_same)
qed


text \<open>
  Claim C5. In an iteration of the poll loop that is within the deadline and reads the
  status of the first item: for \<^verbatim>\<open>failed\<close> it raises \<open>QueryError\<close> whose message ends with
  the item's \<^verbatim>\<open>error\<close> (\<^verbatim>\<open>Unknown error\<close> when the item has none) and whose \<open>job_id\<close> is
  the polled job; for \<^verbatim>\<open>canceled\<close> it raises \<open>QueryError\<close> with that job id; for a status
  other than \<^verbatim>\<open>completed\<close>, \<^verbatim>\<open>failed\<close> and \<^verbatim>\<open>canceled\<close> the loop sleeps for the poll
  interval and runs its next iteration.
\<close>

theorem poll_status_outcomes:
  fixes L :: pylib and w :: world and resp :: response and job_id :: json
    and hdrs :: "(string \<times> string) list" and url :: string and tmo start_time :: real
  assumes in_time: "\<not> clock w (ticks w) - start_time > tmo"
    and reply: "replies w (length (sent w)) = Response resp" "\<not> is_http_error resp"
      "json_parse L (resp_text resp) = Some (JObj kvs)"
      "map_of kvs ''items'' = Some (JArr (JObj item # rest))"
      "map_of item ''status'' = Some status"
  defines "w2 \<equiv> w\<lparr>ticks := Suc (ticks w), sent := sent w @ [status_request hdrs url]\<rparr>"
  defines "outcome \<equiv> wait_loop L job_id tmo hdrs url start_time w"
  shows "(status = JStr ''failed'' \<and> map_of item ''error'' = Some e \<longrightarrow>
            outcome = Some (Inl (QueryError (''Query failed: '' @ py_str L e) (Some job_id)), w2))
       \<and> (status = JStr ''failed'' \<and> map_of item ''error'' = Some (JStr msg) \<longrightarrow>
            (\<exists>err. outcome = Some (Inl err, w2) \<and> contains (message err) msg \<and>
                   job_id_of err = Some job_id \<and> (\<exists>m j. err = QueryError m j)))
       \<and> (status = JStr ''failed'' \<and> map_of item ''error'' = None \<longrightarrow>
            outcome = Some (Inl (QueryError ''Query failed: Unknown error'' (Some job_id)), w2))
       \<and> (status = JStr ''canceled'' \<longrightarrow>
            outcome = Some (Inl (QueryError ''Query was canceled'' (Some job_id)), w2))
       \<and> (status \<noteq> JStr ''completed'' \<and> status \<noteq> JStr ''failed'' \<and>
          status \<noteq> JStr ''canceled'' \<longrightarrow>
            outcome = wait_loop L job_id tmo hdrs url start_time (time_sleep POLL_INTERVAL w2) \<and>
            slept (time_sleep POLL_INTERVAL w2) = slept w @ [POLL_INTERVAL])"
proof -
  have w2: "w2 = w\<lparr>ticks := Suc (ticks w), sent := sent w @ [status_request hdrs url]\<rparr>"
    by (simp add: w2_def)
  note step = wait_loop_status [OF in_time reply w2, where job_id = job_id, folded outcome_def]
  have "contains (''Query failed: '' @ msg) msg"
    by (rule contains_suffix)
  then have "status = JStr ''failed'' \<and> map_of item ''error'' = Some (JStr msg) \<longrightarrow>
            (\<exists>err. outcome = Some (Inl err, w2) \<and> contains (message err) msg \<and>
                   job_id_of err = Some job_id \<and> (\<exists>m j. err = QueryError m j))"
    unfolding step by (simp add: py_str_def del: contains.simps)
  moreover have "status = JStr ''failed'' \<and> map_of item ''error'' = Some e \<longrightarrow>
            outcome = Some (Inl (QueryError (''Query failed: '' @ py_str L e) (Some job_id)), w2)"
    unfolding step by simp
  moreover have "status = JStr ''failed'' \<and> map_of item ''error'' = None \<longrightarrow>
            outcome = Some (Inl (QueryError ''Query failed: Unknown error'' (Some job_id)), w2)"
    unfolding step by (simp add: py_str_def)
  moreover have "status = JStr ''canceled'' \<longrightarrow>
            outcome = Some (Inl (QueryError ''Query was canceled'' (Some job_id)), w2)"
    unfolding step by simp
  moreover have "status \<noteq> JStr ''completed'' \<and> status \<noteq> JStr ''failed'' \<and>
          status \<noteq> JStr ''canceled'' \<longrightarrow>
            outcome = wait_loop L job_id tmo hdrs url start_time (time_sleep POLL_INTERVAL w2) \<and>
            slept (time_sleep POLL_INTERVAL w2) = slept w @ [POLL_INTERVAL]"
    unfolding step by (simp add: time_sleep_def w2)
  ultimately show ?thesis
    by blast
qed

lemma mock_parse_bodies:
  "json_parse mock_lib running_body = Some (JObj running_json)"
  "json_parse mock_lib completed_body = Some (JObj completed_json)"
  "json_parse mock_lib failed_body = Some (JObj failed_json)"
  "json_parse mock_lib failed_plain_body = Some (JObj failed_plain_json)"
  "json_parse mock_lib canceled_body = Some (JObj canceled_json)"
  by (simp_all add: mock_lib_def mock_parse_def auth_body_def submit_body_def running_body_def
        completed_body_def failed_body_def failed_plain_body_def canceled_body_def
        datasets_body_def no_datasets_body_def meta_line_def log1_line_def log2_line_def)

lemma mock_first_reply:
  "replies (mock_world (r # rs)) (length (sent (mock_world (r # rs)))) = r"
  "clock (mock_world rs) (ticks (mock_world rs)) = 1000"
  "replies (mock_world (r # rs)) 0 = r"
  by (simp_all add: mock_world_def)

lemma mock_world_fresh:
  "sent (mock_world rs) = []" "slept (mock_world rs) = []" "ticks (mock_world rs) = 0"
  by (simp_all add: mock_world_def)

lemma mock_response_ok:
  "\<not> is_http_error (mock_response 200 body)" "resp_text (mock_response code body) = body"
  "status_code (mock_response code body) = code"
  by (simp_all add: mock_response_def is_http_error_def)

lemma mock_parse_responses:
  "json_parse mock_lib (resp_text (mock_response code running_body)) = Some (JObj running_json)"
  "json_parse mock_lib (resp_text (mock_response code completed_body)) =
     Some (JObj completed_json)"
  "json_parse mock_lib (resp_text (mock_response code failed_body)) = Some (JObj failed_json)"
  "json_parse mock_lib (resp_text (mock_response code failed_plain_body)) =
     Some (JObj failed_plain_json)"
  "json_parse mock_lib (resp_text (mock_response code canceled_body)) =
     Some (JObj canceled_json)"
  by (simp_all only: mock_response_ok mock_parse_bodies)

theorem poll_status_outcomes_witness:
  "wait_loop mock_lib (JStr ''job-fail'') 300 [] [] 1000
     (mock_world [Response (mock_response 200 failed_body)]) =
     Some (Inl (QueryError ''Query failed: Dataset not found'' (Some (JStr ''job-fail''))),
           (mock_world [Response (mock_response 200 failed_body)])
             \<lparr>ticks := 1, sent := [status_request [] []]\<rparr>)
   \<and> wait_loop mock_lib (JStr ''job-fail'') 300 [] [] 1000
     (mock_world [Response (mock_response 200 failed_plain_body)]) =
     Some (Inl (QueryError ''Query failed: Unknown error'' (Some (JStr ''job-fail''))),
           (mock_world [Response (mock_response 200 failed_plain_body)])
             \<lparr>ticks := 1, sent := [status_request [] []]\<rparr>)
   \<and> wait_loop mock_lib (JStr ''job-1'') 300 [] [] 1000
     (mock_world [Response (mock_response 200 canceled_body)]) =
     Some (Inl (QueryError ''Query was canceled'' (Some (JStr ''job-1''))),
           (mock_world [Response (mock_response 200 canceled_body)])
             \<lparr>ticks := 1, sent := [status_request [] []]\<rparr>)
   \<and> wait_loop mock_lib (JStr ''job-1'') 300 [] [] 1000
     (mock_world [Response (mock_response 200 running_body)]) =
     wait_loop mock_lib (JStr ''job-1'') 300 [] [] 1000
       ((mock_world [Response (mock_response 200 running_body)])
          \<lparr>ticks := 1, sent := [status_request [] []], slept := [2]\<rparr>)"
proof -
  have in_time: "\<not> clock (mock_world rs) (ticks (mock_world rs)) - 1000 > 300" for rs
    by (simp add: mock_first_reply)
  have items:
    "map_of failed_json ''items'' =
       Some (JArr (JObj [(''status'', JStr ''failed''), (''error'', JStr ''Dataset not found'')]
                   # []))"
    "map_of failed_plain_json ''items'' = Some (JArr (JObj [(''status'', JStr ''failed'')] # []))"
    "map_of canceled_json ''items'' = Some (JArr (JObj [(''status'', JStr ''canceled'')] # []))"
    "map_of running_json ''items'' = Some (JArr (JObj [(''status'', JStr ''running'')] # []))"
    by (simp_all add: failed_json_def failed_plain_json_def canceled_json_def running_json_def)
  note failed =
    poll_status_outcomes
      [OF in_time mock_first_reply(1) mock_response_ok(1)
          mock_parse_responses(3) items(1),
       where status = "JStr ''failed''" and job_id = "JStr ''job-fail''" and hdrs = "[]"
         and url = "[]" and e = "JStr ''Dataset not found''"]
  note plain =
    poll_status_outcomes
      [OF in_time mock_first_reply(1) mock_response_ok(1)
          mock_parse_responses(4) items(2),
       where status = "JStr ''failed''" and job_id = "JStr ''job-fail''" and hdrs = "[]"
         and url = "[]"]
  note canceled =
    poll_status_outcomes
      [OF in_time mock_first_reply(1) mock_response_ok(1)
          mock_parse_responses(5) items(3),
       where status = "JStr ''canceled''" and job_id = "JStr ''job-1''" and hdrs = "[]"
         and url = "[]"]
  note running =
    poll_status_outcomes
      [OF in_time mock_first_reply(1) mock_response_ok(1)
          mock_parse_responses(1) items(4),
       where status = "JStr ''running''" and job_id = "JStr ''job-1''" and hdrs = "[]"
         and url = "[]"]
  have sent0: "sent (mock_world rs) = []" "slept (mock_world rs) = []"
    "ticks (mock_world rs) = 0" for rs
    by (simp_all add: mock_world_def)
  from failed have 1: "wait_loop mock_lib (JStr ''job-fail'') 300 [] [] 1000
     (mock_world [Response (mock_response 200 failed_body)]) =
     Some (Inl (QueryError ''Query failed: Dataset not found'' (Some (JStr ''job-fail''))),
           (mock_world [Response (mock_response 200 failed_body)])
             \<lparr>ticks := 1, sent := [status_request [] []]\<rparr>)"
    by (simp add: sent0 py_str_def)
  from plain have 2: "wait_loop mock_lib (JStr ''job-fail'') 300 [] [] 1000
     (mock_world [Response (mock_response 200 failed_plain_body)]) =
     Some (Inl (QueryError ''Query failed: Unknown error'' (Some (JStr ''job-fail''))),
           (mock_world [Response (mock_response 200 failed_plain_body)])
             \<lparr>ticks := 1, sent := [status_request [] []]\<rparr>)"
    by (simp add: sent0)
  from canceled have 3: "wait_loop mock_lib (JStr ''job-1'') 300 [] [] 1000
     (mock_world [Response (mock_response 200 canceled_body)]) =
     Some (Inl (QueryError ''Query was canceled'' (Some (JStr ''job-1''))),
           (mock_world [Response (mock_response 200 canceled_body)])
             \<lparr>ticks := 1, sent := [status_request [] []]\<rparr>)"
    by (simp add: sent0)
  from running have 4: "wait_loop mock_lib (JStr ''job-1'') 300 [] [] 1000
     (mock_world [Response (mock_response 200 running_body)]) =
     wait_loop mock_lib (JStr ''job-1'') 300 [] [] 1000
       ((mock_world [Response (mock_response 200 running_body)])
          \<lparr>ticks := 1, sent := [status_request [] []], slept := [2]\<rparr>)"
    by (simp add: sent0 time_sleep_def POLL_INTERVAL_def)
  from 1 2 3 4 show ?thesis
    by simp
qed

text \<open>
  Claim C7. In an iteration of the poll loop that is within the deadline, a transport
  failure of the status request and every error status of its response, 401 included,
  raise \<open>QueryError\<close> with no job id; no case of \<open>AuthenticationError\<close> exists here.
\<close>

theorem poll_fetch_failure:
  fixes L :: pylib and w :: world and resp :: response and job_id :: json
    and hdrs :: "(string \<times> string) list" and url :: string and tmo start_time :: real
  assumes in_time: "\<not> clock w (ticks w) - start_time > tmo"
  defines "r \<equiv> replies w (length (sent w))"
  defines "w2 \<equiv> w\<lparr>ticks := Suc (ticks w), sent := sent w @ [status_request hdrs url]\<rparr>"
  defines "outcome \<equiv> wait_loop L job_id tmo hdrs url start_time w"
  shows "(r = Transport_Failure m \<longrightarrow>
            outcome = Some (Inl (QueryError (''Failed to check job status: '' @ m) None), w2))
       \<and> (r = Response resp \<and> is_http_error resp \<longrightarrow>
            outcome = Some (Inl (QueryError (''Failed to check job status: '' @
                                             http_error_str resp) None), w2))
       \<and> (r = Response resp \<and> status_code resp = 401 \<longrightarrow>
            outcome = Some (Inl (QueryError (''Failed to check job status: '' @
                                             http_error_str resp) None), w2) \<and>
            (\<forall>a. outcome \<noteq> Some (Inl (AuthenticationError a), w2)))"
  unfolding r_def w2_def outcome_def
  using wait_loop_transport_failure [OF in_time, of m L job_id hdrs url]
    wait_loop_http_error [OF in_time, of resp L job_id hdrs url]
  by (auto simp: is_http_error_def)


theorem poll_fetch_failure_witness:
  "wait_loop mock_lib (JStr ''job-1'') 300 [] [] 1000
     (mock_world [Transport_Failure ''Read timed out'']) =
     Some (Inl (QueryError ''Failed to check job status: Read timed out'' None),
           (mock_world [Transport_Failure ''Read timed out''])
             \<lparr>ticks := 1, sent := [status_request [] []]\<rparr>)
   \<and> wait_loop mock_lib (JStr ''job-1'') 300 [] [] 1000
     (mock_world [Response (mock_response 401 [])]) =
     Some (Inl (QueryError (''Failed to check job status: '' @
                            http_error_str (mock_response 401 [])) None),
           (mock_world [Response (mock_response 401 [])])
             \<lparr>ticks := 1, sent := [status_request [] []]\<rparr>)
   \<and> wait_loop mock_lib (JStr ''job-1'') 300 [] [] 1000
     (mock_world [Response (mock_response 502 [])]) =
     Some (Inl (QueryError (''Failed to check job status: '' @
                            http_error_str (mock_response 502 [])) None),
           (mock_world [Response (mock_response 502 [])])
             \<lparr>ticks := 1, sent := [status_request [] []]\<rparr>)"
proof -
  have in_time: "\<not> clock (mock_world rs) (ticks (mock_world rs)) - 1000 > 300" for rs
    by (simp add: mock_first_reply)
  have sent0: "sent (mock_world rs) = []" "ticks (mock_world rs) = 0" for rs
    by (simp_all add: mock_world_def)
  have codes: "is_http_error (mock_response 502 [])"
    by (simp add: mock_response_def is_http_error_def)
  from poll_fetch_failure
         [OF in_time [of "[Transport_Failure ''Read timed out'']"],
          where m = "''Read timed out''" and L = mock_lib and job_id = "JStr ''job-1''"
            and hdrs = "[]" and url = "[]"]
  have 1: "wait_loop mock_lib (JStr ''job-1'') 300 [] [] 1000
     (mock_world [Transport_Failure ''Read timed out'']) =
     Some (Inl (QueryError ''Failed to check job status: Read timed out'' None),
           (mock_world [Transport_Failure ''Read timed out''])
             \<lparr>ticks := 1, sent := [status_request [] []]\<rparr>)"
    by (simp add: sent0 mock_first_reply)
  from poll_fetch_failure
         [OF in_time [of "[Response (mock_response 401 [])]"],
          where resp = "mock_response 401 []" and L = mock_lib and job_id = "JStr ''job-1''"
            and hdrs = "[]" and url = "[]"]
  have 2: "wait_loop mock_lib (JStr ''job-1'') 300 [] [] 1000
     (mock_world [Response (mock_response 401 [])]) =
     Some (Inl (QueryError (''Failed to check job status: '' @
                            http_error_str (mock_response 401 [])) None),
           (mock_world [Response (mock_response 401 [])])
             \<lparr>ticks := 1, sent := [status_request [] []]\<rparr>)"
    by (simp add: sent0 mock_first_reply mock_response_ok)
  from poll_fetch_failure
         [OF in_time [of "[Response (mock_response 502 [])]"],
          where resp = "mock_response 502 []" and L = mock_lib and job_id = "JStr ''job-1''"
            and hdrs = "[]" and url = "[]"] codes
  have 3: "wait_loop mock_lib (JStr ''job-1'') 300 [] [] 1000
     (mock_world [Response (mock_response 502 [])]) =
     Some (Inl (QueryError (''Failed to check job status: '' @
                            http_error_str (mock_response 502 [])) None),
           (mock_world [Response (mock_response 502 [])])
             \<lparr>ticks := 1, sent := [status_request [] []]\<rparr>)"
    by (simp add: sent0 mock_first_reply)
  from 1 2 3 show ?thesis
    by simp
qed

lemma timeout_message_text:
  "timeout_message L tmo =
     (''Query did not complete within '' @ str_float L tmo @ '' seconds. '') @
     (''Try narrowing the time range or adding '' @ [CHR 0x27] @ ''| limit N'' @ [CHR 0x27] @
      '' to your query.'')"
  by (simp add: timeout_message_def guidance_def)

text \<open>
  Claim C6, amended. \<open>wait_for_job\<close> reads the clock once when the wait begins and once
  at the start of every iteration of the poll loop, before anything else. If the first
  \<open>n\<close> iterations find the elapsed time within \<open>tmo\<close> and read a status that is not
  final, and iteration \<open>n\<close> finds it greater than \<open>tmo\<close>, then the call returns, raising
  \<open>TimeoutError\<close> whose message ends with the guidance text, after exactly \<open>n\<close> status
  requests and \<open>n\<close> sleeps: the iteration that finds the deadline passed sends nothing
  and does not sleep. Within an iteration the clock is not read again, so the sleep that
  follows a slow status request may begin after the deadline.
\<close>

theorem poll_deadline:
  fixes L :: pylib and c c' :: client and w w' :: world and job_id :: json and tmo :: real
    and resp :: "nat \<Rightarrow> response" and status :: "nat \<Rightarrow> json"
  assumes headers: "get_headers L c w = (Inr hdrs, c', w')"
  defines "url \<equiv> api_base_url (config c') @ ''/search/jobs/'' @ py_str L job_id @ ''/status''"
  defines "elapsed \<equiv> (\<lambda>k. clock w' (ticks w' + 1 + k) - clock w' (ticks w'))"
  defines "advice \<equiv>
     ''Try narrowing the time range or adding '' @ [CHR 0x27] @ ''| limit N'' @ [CHR 0x27] @
     '' to your query.''"
  defines "raised \<equiv>
     TimeoutError ((''Query did not complete within '' @ str_float L tmo @ '' seconds. '') @
                   advice)"
  assumes within: "\<forall>k<n. \<not> elapsed k > tmo"
    and pending:
      "\<forall>k<n. replies w' (length (sent w') + k) = Response (resp k) \<and>
           \<not> is_http_error (resp k) \<and>
           json_parse L (resp_text (resp k)) = Some (JObj (kvs k)) \<and>
           map_of (kvs k) ''items'' = Some (JArr (JObj (item k) # rest k)) \<and>
           map_of (item k) ''status'' = Some (status k) \<and>
           status k \<noteq> JStr ''completed'' \<and> status k \<noteq> JStr ''failed'' \<and>
           status k \<noteq> JStr ''canceled''"
    and passed: "elapsed n > tmo"
  shows "wait_for_job L c job_id tmo w =
           Some (Inl raised, c',
                 w'\<lparr>ticks := ticks w' + n + 2,
                    sent := sent w' @ replicate n (status_request hdrs url),
                    slept := slept w' @ replicate n POLL_INTERVAL\<rparr>)
         \<and> contains (message raised) advice"
proof -
  let ?w1 = "w'\<lparr>ticks := Suc (ticks w')\<rparr>"
  have "wait_loop L job_id tmo hdrs url (clock w' (ticks w')) ?w1 =
           Some (Inl (TimeoutError (timeout_message L tmo)),
                 ?w1\<lparr>ticks := ticks ?w1 + n + 1,
                   sent := sent ?w1 @ replicate n (status_request hdrs url),
                   slept := slept ?w1 @ replicate n POLL_INTERVAL\<rparr>)"
  proof (rule wait_loop_pending_then_deadline [where resp = resp and kvs = kvs
        and item = item and rest = rest and status = status])
    show "\<forall>k<n. \<not> clock ?w1 (ticks ?w1 + k) - clock w' (ticks w') > tmo"
      using within by (simp add: elapsed_def)
    show "\<forall>k<n. replies ?w1 (length (sent ?w1) + k) = Response (resp k) \<and>
           \<not> is_http_error (resp k) \<and>
           json_parse L (resp_text (resp k)) = Some (JObj (kvs k)) \<and>
           map_of (kvs k) ''items'' = Some (JArr (JObj (item k) # rest k)) \<and>
           map_of (item k) ''status'' = Some (status k) \<and>
           status k \<noteq> JStr ''completed'' \<and> status k \<noteq> JStr ''failed'' \<and>
           status k \<noteq> JStr ''canceled''"
      using pending by simp
    show "clock ?w1 (ticks ?w1 + n) - clock w' (ticks w') > tmo"
      using passed by (simp add: elapsed_def)
  qed
  then have "wait_for_job L c job_id tmo w =
           Some (Inl (TimeoutError (timeout_message L tmo)), c',
                 w'\<lparr>ticks := ticks w' + n + 2,
                    sent := sent w' @ replicate n (status_request hdrs url),
                    slept := slept w' @ replicate n POLL_INTERVAL\<rparr>)"
    by (simp add: wait_for_job_def headers time_time_def Let_def url_def)
  moreover have "TimeoutError (timeout_message L tmo) = raised"
    unfolding raised_def advice_def by (simp only: timeout_message_text)
  moreover have "contains (message raised) advice"
    unfolding raised_def message.simps by (rule contains_suffix)
  ultimately show ?thesis
    by (simp only: simp_thms)
qed


theorem poll_deadline_witness:
  "fst (the (wait_for_job mock_lib mock_client (JStr ''job-123'') 5
          (mock_world [Response (mock_response 200 auth_body),
                       Response (mock_response 200 running_body),
                       Response (mock_response 200 running_body)]))) =
     Inl (TimeoutError (''Query did not complete within 5 seconds. '' @
                        ''Try narrowing the time range or adding '' @ [CHR 0x27] @
                        ''| limit N'' @ [CHR 0x27] @ '' to your query.''))
   \<and> length (sent (snd (snd (the (wait_for_job mock_lib mock_client (JStr ''job-123'') 5
          (mock_world [Response (mock_response 200 auth_body),
                       Response (mock_response 200 running_body),
                       Response (mock_response 200 running_body)]))))))
     = 3
   \<and> slept (snd (snd (the (wait_for_job mock_lib mock_client (JStr ''job-123'') 5
          (mock_world [Response (mock_response 200 auth_body),
                       Response (mock_response 200 running_body),
                       Response (mock_response 200 running_body)])))))
     = [2, 2]"
proof -
  let ?rs = "[Response (mock_response 200 running_body),
              Response (mock_response 200 running_body)]"
  let ?w' = "(mock_world (Response (mock_response 200 auth_body) # ?rs))
               \<lparr>sent := [auth_request mock_client], ticks := 1\<rparr>"
  have within: "\<forall>k<2. \<not> clock ?w' (ticks ?w' + 1 + k) - clock ?w' (ticks ?w') > 5"
    by (simp add: mock_world_def)
  have passed: "clock ?w' (ticks ?w' + 1 + 2) - clock ?w' (ticks ?w') > 5"
    by (simp add: mock_world_def)
  have "replies ?w' (length (sent ?w') + k) = Response (mock_response 200 running_body)"
    if "k < 2" for k
    using that by (cases k) (simp_all add: mock_world_def)
  moreover have running_items:
    "map_of running_json ''items'' = Some (JArr (JObj [(''status'', JStr ''running'')] # []))"
    by (simp add: running_json_def)
  ultimately have pending:
    "\<forall>k<2. replies ?w' (length (sent ?w') + k) = Response (mock_response 200 running_body) \<and>
        \<not> is_http_error (mock_response 200 running_body) \<and>
        json_parse mock_lib (resp_text (mock_response 200 running_body)) =
          Some (JObj running_json) \<and>
        map_of running_json ''items'' = Some (JArr (JObj [(''status'', JStr ''running'')] # [])) \<and>
        map_of [(''status'', JStr ''running'')] ''status'' = Some (JStr ''running'') \<and>
        JStr ''running'' \<noteq> JStr ''completed'' \<and> JStr ''running'' \<noteq> JStr ''failed'' \<and>
        JStr ''running'' \<noteq> JStr ''canceled''"
    using running_items by (simp add: mock_response_ok mock_parse_bodies)
  note result =
    poll_deadline
      [OF mock_headers [of ?rs], where n = 2 and tmo = 5
         and resp = "\<lambda>k. mock_response 200 running_body" and kvs = "\<lambda>k. running_json"
         and item = "\<lambda>k. [(''status'', JStr ''running'')]" and rest = "\<lambda>k. []"
         and status = "\<lambda>k. JStr ''running''" and job_id = "JStr ''job-123''",
       OF within pending passed]
  then show ?thesis
    by (simp add: POLL_INTERVAL_def numeral_2_eq_2 mock_world_fresh mock_lib_def
          del: contains.simps)
qed


theorem poll_sleep_after_deadline_counterexample:
  "wait_loop mock_lib (JStr ''job-1'') 5 [] [] (clock slow_world 0) slow_world =
     Some (Inl (TimeoutError (timeout_message mock_lib 5)),
           slow_world\<lparr>ticks := 2, sent := [status_request [] []], slept := [2]\<rparr>)
   \<and> clock slow_world 0 \<le> sleep_at slow_world 0
   \<and> sleep_at slow_world 0 \<le> clock slow_world 1
   \<and> sleep_at slow_world 0 - clock slow_world 0 > 5"
proof -
  let ?w2 = "slow_world\<lparr>ticks := Suc (ticks slow_world),
                         sent := sent slow_world @ [status_request [] []]\<rparr>"
  let ?w3 = "time_sleep POLL_INTERVAL ?w2"
  have in_time: "\<not> clock slow_world (ticks slow_world) - clock slow_world 0 > 5"
    by (simp add: slow_world_def)
  have reply: "replies slow_world (length (sent slow_world)) =
      Response (mock_response 200 running_body)"
    by (simp add: slow_world_def)
  have items: "map_of running_json ''items'' =
      Some (JArr (JObj [(''status'', JStr ''running'')] # []))"
    "map_of [(''status'', JStr ''running'')] ''status'' = Some (JStr ''running'')"
    by (simp_all add: running_json_def)
  have first: "wait_loop mock_lib (JStr ''job-1'') 5 [] [] (clock slow_world 0) slow_world =
      wait_loop mock_lib (JStr ''job-1'') 5 [] [] (clock slow_world 0) ?w3"
    using wait_loop_status
            [OF in_time reply mock_response_ok(1) mock_parse_responses(1) items refl,
             where job_id = "JStr ''job-1''" and hdrs = "[]" and url = "[]"]
    by simp
  have passed: "clock ?w3 (ticks ?w3) - clock slow_world 0 > 5"
    by (simp add: slow_world_def time_sleep_def)
  have second: "wait_loop mock_lib (JStr ''job-1'') 5 [] [] (clock slow_world 0) ?w3 =
      Some (Inl (TimeoutError (timeout_message mock_lib 5)), ?w3\<lparr>ticks := Suc (ticks ?w3)\<rparr>)"
    using passed by (rule wait_loop_deadline)
  have "?w3\<lparr>ticks := Suc (ticks ?w3)\<rparr> =
      slow_world\<lparr>ticks := 2, sent := [status_request [] []], slept := [2]\<rparr>"
    by (simp add: slow_world_def time_sleep_def POLL_INTERVAL_def)
  with first second have "wait_loop mock_lib (JStr ''job-1'') 5 [] [] (clock slow_world 0)
      slow_world =
      Some (Inl (TimeoutError (timeout_message mock_lib 5)),
            slow_world\<lparr>ticks := 2, sent := [status_request [] []], slept := [2]\<rparr>)"
    by simp
  then show ?thesis
    by (simp add: slow_world_def)
qed

subsection \<open>Result pages\<close>

lemma split_nl_nonempty: "split_nl s \<noteq> []"
  by (induction s) (auto split: list.splits)

lemma append_records_acc:
  "append_records L acc ls =
     (case append_records L [] ls of Inl e \<Rightarrow> Inl e | Inr rs \<Rightarrow> Inr (acc @ rs))"
proof (induction ls arbitrary: acc)
  case Nil
  then show ?case by simp
next
  case (Cons l ls)
  show ?case
  proof (cases "py_strip L l \<noteq> []")
    case True
    show ?thesis
    proof (cases "json_loads L l")
      case (Inl e)
      with True show ?thesis by simp
    next
      case (Inr v)
      with True show ?thesis
        by (simp add: Cons.IH [of "acc @ [v]"] Cons.IH [of "[v]"] split: sum.splits)
    qed
  next
    case False
    then show ?thesis by (simp add: Cons.IH [of acc])
  qed
qed

lemma append_records_decoded:
  assumes "\<forall>l\<in>set ls. py_strip L l \<noteq> [] \<longrightarrow> json_parse L l \<noteq> None"
  shows "append_records L [] ls =
           Inr (map (the \<circ> json_parse L) (filter (\<lambda>l. py_strip L l \<noteq> []) ls))"
  using assms
proof (induction ls)
  case Nil
  then show ?case by simp
next
  case (Cons l ls)
  then have IH: "append_records L [] ls =
           Inr (map (the \<circ> json_parse L) (filter (\<lambda>l. py_strip L l \<noteq> []) ls))"
    by simp
  show ?case
  proof (cases "py_strip L l \<noteq> []")
    case True
    with Cons.prems obtain v where "json_parse L l = Some v"
      by auto
    with True IH show ?thesis
      by (simp add: json_loads_def append_records_acc [of L "[v]"])
  next
    case False
    with IH show ?thesis by simp
  qed
qed

lemma get_results_loop_page:
  assumes "replies w (length (sent w)) = Response resp" and "\<not> is_http_error resp"
    and "split_nl (py_strip L (resp_text resp)) = first # rest"
    and "json_parse L first = Some (JObj kvs)"
    and "map_of kvs ''totalEventCount'' = Some (JInt N)"
    and "append_records L [] rest = Inr recs"
    and "w1 = w\<lparr>sent := sent w @ [page_request hdrs url offset]\<rparr>"
  shows "get_results_loop L hdrs url acc offset w =
           (if N \<le> int (offset + page_size) then Some (Inr (acc @ recs), w1)
            else get_results_loop L hdrs url (acc @ recs) (offset + page_size) w1)"
  using assms
  by (subst get_results_loop.simps)
     (simp add: send_def json_loads_def last_page_def append_records_acc [of L acc])


lemma get_results_loop_undecodable:
  assumes "replies w (length (sent w)) = Response resp" and "\<not> is_http_error resp"
    and "json_parse L (hd (split_nl (py_strip L (resp_text resp)))) = None"
  shows "get_results_loop L hdrs url acc offset w =
           Some (Inl JSONDecodeError, w\<lparr>sent := sent w @ [page_request hdrs url offset]\<rparr>)"
proof (cases "split_nl (py_strip L (resp_text resp))")
  case Nil
  then show ?thesis
    by (simp add: split_nl_nonempty)
next
  case (Cons first rest)
  with assms show ?thesis
    by (subst get_results_loop.simps) (simp add: send_def json_loads_def)
qed

text \<open>
  Claim C10. \<open>split_nl\<close> never returns the empty list, and for a body that strips to the
  empty string it returns the list of one empty string; so the \<^verbatim>\<open>if not lines: break\<close> of
  \<open>get_results_loop\<close> is never taken. A page whose first line the decoder rejects, and
  so a page with an empty body when the decoder rejects the empty document, ends the
  call with the decoder's own error, which is none of the four errors of the library.
\<close>

theorem empty_page_raises_decode_error:
  fixes L :: pylib and w :: world and resp :: response
    and hdrs :: "(string \<times> string) list" and url :: string and acc :: "json list"
    and offset :: nat
  defines "lines \<equiv> split_nl (py_strip L (resp_text resp))"
  defines "outcome \<equiv> get_results_loop L hdrs url acc offset w"
  defines "w1 \<equiv> w\<lparr>sent := sent w @ [page_request hdrs url offset]\<rparr>"
  shows "split_nl s \<noteq> []
       \<and> (py_strip L (resp_text resp) = [] \<longrightarrow> lines = [[]])
       \<and> (replies w (length (sent w)) = Response resp \<and> \<not> is_http_error resp \<and>
          json_parse L (hd lines) = None \<longrightarrow>
            outcome = Some (Inl JSONDecodeError, w1))
       \<and> (replies w (length (sent w)) = Response resp \<and> \<not> is_http_error resp \<and>
          py_strip L (resp_text resp) = [] \<and> json_parse L [] = None \<longrightarrow>
            outcome = Some (Inl JSONDecodeError, w1))
       \<and> \<not> is_library_error JSONDecodeError"
proof -
  have "replies w (length (sent w)) = Response resp \<and> \<not> is_http_error resp \<and>
          json_parse L (hd lines) = None \<longrightarrow>
            outcome = Some (Inl JSONDecodeError, w1)"
    unfolding lines_def outcome_def w1_def
    by (simp add: get_results_loop_undecodable)
  moreover have "replies w (length (sent w)) = Response resp \<and> \<not> is_http_error resp \<and>
          py_strip L (resp_text resp) = [] \<and> json_parse L [] = None \<longrightarrow>
            outcome = Some (Inl JSONDecodeError, w1)"
    unfolding lines_def outcome_def w1_def
    by (simp add: get_results_loop_undecodable)
  moreover have "py_strip L (resp_text resp) = [] \<longrightarrow> lines = [[]]"
    unfolding lines_def by simp
  ultimately show ?thesis
    by (simp add: split_nl_nonempty)
qed

theorem empty_page_raises_decode_error_witness:
  "split_nl [] = [[]]
   \<and> get_results_loop mock_lib [] [] [] 0 (mock_world [Response (mock_response 200 [])]) =
     Some (Inl JSONDecodeError,
           (mock_world [Response (mock_response 200 [])])\<lparr>sent := [page_request [] [] 0]\<rparr>)
   \<and> get_results_loop mock_lib [] [] [] 0
       (mock_world [Response (mock_response 200 ''Service starting'')]) =
     Some (Inl JSONDecodeError,
           (mock_world [Response (mock_response 200 ''Service starting'')])
             \<lparr>sent := [page_request [] [] 0]\<rparr>)"
proof -
  have stripped: "py_strip mock_lib (resp_text (mock_response 200 [])) = []"
    "hd (split_nl (py_strip mock_lib (resp_text (mock_response 200 ''Service starting'')))) =
       ''Service starting''"
    by (simp_all add: mock_response_ok py_strip_def mock_lib_def ascii_strip_def is_space_def)
  have rejected: "json_parse mock_lib [] = None" "json_parse mock_lib ''Service starting'' = None"
    by (simp_all add: mock_lib_def mock_parse_def auth_body_def submit_body_def
          running_body_def completed_body_def failed_body_def failed_plain_body_def
          canceled_body_def datasets_body_def no_datasets_body_def meta_line_def log1_line_def
          log2_line_def long_meta_line_def log3_line_def bad_time_line_def)
  from empty_page_raises_decode_error
         [where w = "mock_world [Response (mock_response 200 [])]"
            and resp = "mock_response 200 []" and L = mock_lib and hdrs = "[]" and url = "[]"
            and acc = "[]" and offset = 0 and s = "[]"]
       stripped(1) rejected(1)
  have 1: "get_results_loop mock_lib [] [] [] 0 (mock_world [Response (mock_response 200 [])]) =
     Some (Inl JSONDecodeError,
           (mock_world [Response (mock_response 200 [])])\<lparr>sent := [page_request [] [] 0]\<rparr>)"
    by (simp add: mock_first_reply mock_response_ok mock_world_fresh)
  from empty_page_raises_decode_error
         [where w = "mock_world [Response (mock_response 200 ''Service starting'')]"
            and resp = "mock_response 200 ''Service starting''" and L = mock_lib and hdrs = "[]"
            and url = "[]" and acc = "[]" and offset = 0]
       stripped(2) rejected(2)
  have 2: "get_results_loop mock_lib [] [] [] 0
       (mock_world [Response (mock_response 200 ''Service starting'')]) =
     Some (Inl JSONDecodeError,
           (mock_world [Response (mock_response 200 ''Service starting'')])
             \<lparr>sent := [page_request [] [] 0]\<rparr>)"
    by (simp add: mock_first_reply mock_response_ok mock_world_fresh)
  from 1 2 show ?thesis
    by simp
qed




lemma get_results_loop_pages:
  fixes resp :: "nat \<Rightarrow> response" and rest :: "nat \<Rightarrow> string list"
  assumes "\<forall>k\<le>n. replies w (length (sent w) + k) = Response (resp k) \<and>
             \<not> is_http_error (resp k) \<and>
             split_nl (py_strip L (resp_text (resp k))) = first k # rest k \<and>
             json_parse L (first k) = Some (JObj (kvs k)) \<and>
             map_of (kvs k) ''totalEventCount'' = Some (JInt N) \<and>
             append_records L [] (rest k) = Inr (recs k)"
    and "\<forall>k<n. int (offset + page_size * Suc k) < N"
    and "N \<le> int (offset + page_size * Suc n)"
  shows "get_results_loop L hdrs url acc offset w =
           Some (Inr (acc @ concat (map recs [0..<Suc n])),
                 w\<lparr>sent := sent w @
                      map (\<lambda>k. page_request hdrs url (offset + page_size * k)) [0..<Suc n]\<rparr>)"
  using assms
proof (induction n arbitrary: w acc offset resp first rest kvs recs)
  case 0
  then show ?case
    by (simp add: get_results_loop_page [where resp = "resp 0" and first = "first 0"
          and rest = "rest 0" and kvs = "kvs 0" and recs = "recs 0" and N = N])
next
  case (Suc n)
  let ?w1 = "w\<lparr>sent := sent w @ [page_request hdrs url offset]\<rparr>"
  from Suc.prems(1) have page0: "replies w (length (sent w)) = Response (resp 0)"
    "\<not> is_http_error (resp 0)" "split_nl (py_strip L (resp_text (resp 0))) = first 0 # rest 0"
    "json_parse L (first 0) = Some (JObj (kvs 0))"
    "map_of (kvs 0) ''totalEventCount'' = Some (JInt N)"
    "append_records L [] (rest 0) = Inr (recs 0)"
    by force+
  from Suc.prems(2) have more: "\<not> N \<le> int (offset + page_size)"
    by force
  have step: "get_results_loop L hdrs url acc offset w =
              get_results_loop L hdrs url (acc @ recs 0) (offset + page_size) ?w1"
    using get_results_loop_page
            [OF page0 refl, where hdrs = hdrs and url = url and offset = offset and acc = acc]
          more
    by simp
  have "get_results_loop L hdrs url (acc @ recs 0) (offset + page_size) ?w1 =
           Some (Inr ((acc @ recs 0) @ concat (map (\<lambda>k. recs (Suc k)) [0..<Suc n])),
                 ?w1\<lparr>sent := sent ?w1 @
                      map (\<lambda>k. page_request hdrs url ((offset + page_size) + page_size * k))
                        [0..<Suc n]\<rparr>)"
  proof (rule Suc.IH [where resp = "\<lambda>k. resp (Suc k)" and first = "\<lambda>k. first (Suc k)"
        and rest = "\<lambda>k. rest (Suc k)" and kvs = "\<lambda>k. kvs (Suc k)"])
    show "\<forall>k\<le>n. replies ?w1 (length (sent ?w1) + k) = Response (resp (Suc k)) \<and>
             \<not> is_http_error (resp (Suc k)) \<and>
             split_nl (py_strip L (resp_text (resp (Suc k)))) = first (Suc k) # rest (Suc k) \<and>
             json_parse L (first (Suc k)) = Some (JObj (kvs (Suc k))) \<and>
             map_of (kvs (Suc k)) ''totalEventCount'' = Some (JInt N) \<and>
             append_records L [] (rest (Suc k)) = Inr (recs (Suc k))"
    proof (intro allI impI)
      fix k
      assume "k \<le> n"
      then have "Suc k \<le> Suc n"
        by simp
      from Suc.prems(1) [rule_format, OF this]
      show "replies ?w1 (length (sent ?w1) + k) = Response (resp (Suc k)) \<and>
             \<not> is_http_error (resp (Suc k)) \<and>
             split_nl (py_strip L (resp_text (resp (Suc k)))) = first (Suc k) # rest (Suc k) \<and>
             json_parse L (first (Suc k)) = Some (JObj (kvs (Suc k))) \<and>
             map_of (kvs (Suc k)) ''totalEventCount'' = Some (JInt N) \<and>
             append_records L [] (rest (Suc k)) = Inr (recs (Suc k))"
        by simp
    qed
    show "\<forall>k<n. int (offset + page_size + page_size * Suc k) < N"
    proof (intro allI impI)
      fix k
      assume "k < n"
      then have "Suc k < Suc n"
        by simp
      from Suc.prems(2) [rule_format, OF this] show "int (offset + page_size + page_size * Suc k) < N"
        by (simp add: algebra_simps)
    qed
    show "N \<le> int (offset + page_size + page_size * Suc n)"
      using Suc.prems(3) by (simp add: algebra_simps)
  qed
  note rest = this
  have recs: "map recs [0..<Suc (Suc n)] = recs 0 # map (\<lambda>k. recs (Suc k)) [0..<Suc n]"
    by (simp only: map_upt_Suc)
  have reqs: "map (\<lambda>k. page_request hdrs url (offset + page_size * k)) [0..<Suc (Suc n)] =
      page_request hdrs url offset #
      map (\<lambda>k. page_request hdrs url ((offset + page_size) + page_size * k)) [0..<Suc n]"
    by (simp only: map_upt_Suc) (simp add: algebra_simps del: upt_Suc)
  show ?case
    unfolding step rest recs reqs by (simp del: upt_Suc)
qed



text \<open>
  Claim C1, amended. Let the replies to the first \<open>P\<close> page requests be pages whose first
  line decodes to metadata with \<^verbatim>\<open>totalEventCount\<close> \<open>N\<close> and whose other non-blank lines
  decode, where \<open>P\<close> is the first positive number of pages with \<open>1000 * P \<ge> N\<close>. Then
  \<open>get_results\<close> returns; it has requested exactly the pages at the offsets
  \<open>0, 1000, \<dots>, 1000 * (P - 1)\<close>, each with limit 1000; and the records that it hands to
  \<^verbatim>\<open>pd.DataFrame\<close> are the decoded non-blank lines after the first of every page, page by
  page and line by line, each once. What it returns is the error of \<^verbatim>\<open>pd.DataFrame\<close>
  on these records, or the frame of them when it has no column \<^verbatim>\<open>_time\<close> or no row, or
  else the error of \<^verbatim>\<open>pd.to_datetime\<close> on that column, or the frame with that column
  replaced by the converted times.
\<close>

theorem fetch_results_pages:
  fixes L :: pylib and c c' :: client and w w' :: world and job_id :: json
    and resp :: "nat \<Rightarrow> response" and rest :: "nat \<Rightarrow> string list" and N :: int
    and P :: nat
  assumes headers: "get_headers L c w = (Inr hdrs, c', w')"
  defines "hdrs' \<equiv> hdrs @ [(''Accept'', ''application/x-ndjson'')]"
  defines "url \<equiv> api_base_url (config c') @ ''/search/jobs/'' @ py_str L job_id @ ''/results''"
  defines "records \<equiv>
     (\<lambda>k. map (the \<circ> json_parse L) (filter (\<lambda>l. str_strip L l \<noteq> []) (rest k)))"
  defines "table \<equiv>
     (case pd_DataFrame L (concat (map records [0..<P])) of
        Inl e \<Rightarrow> Inl e
      | Inr df \<Rightarrow>
          (case map_of (frame_columns df) (Name ''_time'') of
             None \<Rightarrow> Inr df
           | Some col \<Rightarrow>
               if frame_len df > 0
               then (case pd_to_datetime L col of
                       Inl e \<Rightarrow> Inl e
                     | Inr instants \<Rightarrow>
                         Inr (df\<lparr>frame_columns :=
                                   map (\<lambda>(k, old). if k = Name ''_time'' then (k, instants)
                                                     else (k, old))
                                     (frame_columns df)\<rparr>))
               else Inr df))"
  assumes pages:
      "\<forall>k<P. replies w' (length (sent w') + k) = Response (resp k) \<and>
             \<not> is_http_error (resp k) \<and>
             split_nl (str_strip L (resp_text (resp k))) = first k # rest k \<and>
             json_parse L (first k) = Some (JObj (kvs k)) \<and>
             map_of (kvs k) ''totalEventCount'' = Some (JInt N) \<and>
             (\<forall>l\<in>set (rest k). str_strip L l \<noteq> [] \<longrightarrow> json_parse L l \<noteq> None)"
    and count: "0 < P" "N \<le> int (page_size * P)" "\<forall>k. 0 < k \<and> k < P \<longrightarrow> int (page_size * k) < N"
  shows "get_results L c job_id w =
           Some (table, c',
                 w'\<lparr>sent := sent w' @
                       map (\<lambda>k. page_request hdrs' url (page_size * k)) [0..<P]\<rparr>)
         \<and> (\<forall>offset. req_params (page_request hdrs' url offset) =
                        [(''limit'', 1000), (''offset'', offset)])
         \<and> page_size = 1000"
proof -
  from count(1) obtain n where P: "P = Suc n"
    by (cases P) simp_all
  have strip: "str_strip L = py_strip L"
    by (simp add: py_strip_def fun_eq_iff)
  have "get_results_loop L hdrs' url [] 0 w' =
           Some (Inr ([] @ concat (map records [0..<Suc n])),
                 w'\<lparr>sent := sent w' @
                      map (\<lambda>k. page_request hdrs' url (0 + page_size * k)) [0..<Suc n]\<rparr>)"
  proof (rule get_results_loop_pages [where resp = resp and first = first and rest = rest
        and kvs = kvs and N = N])
    show "\<forall>k\<le>n. replies w' (length (sent w') + k) = Response (resp k) \<and>
             \<not> is_http_error (resp k) \<and>
             split_nl (py_strip L (resp_text (resp k))) = first k # rest k \<and>
             json_parse L (first k) = Some (JObj (kvs k)) \<and>
             map_of (kvs k) ''totalEventCount'' = Some (JInt N) \<and>
             append_records L [] (rest k) = Inr (records k)"
    proof (intro allI impI)
      fix k
      assume "k \<le> n"
      then have "k < P"
        by (simp add: P)
      from pages [rule_format, OF this]
      show "replies w' (length (sent w') + k) = Response (resp k) \<and>
             \<not> is_http_error (resp k) \<and>
             split_nl (py_strip L (resp_text (resp k))) = first k # rest k \<and>
             json_parse L (first k) = Some (JObj (kvs k)) \<and>
             map_of (kvs k) ''totalEventCount'' = Some (JInt N) \<and>
             append_records L [] (rest k) = Inr (records k)"
        unfolding records_def strip by (simp add: append_records_decoded)
    qed
    show "\<forall>k<n. int (0 + page_size * Suc k) < N"
    proof (intro allI impI)
      fix k
      assume "k < n"
      then have "0 < Suc k \<and> Suc k < P"
        by (simp add: P)
      from count(3) [rule_format, OF this] show "int (0 + page_size * Suc k) < N"
        by simp
    qed
    show "N \<le> int (0 + page_size * Suc n)"
      using count(2) by (simp add: P)
  qed
  moreover have "table = to_data_frame L (concat (map records [0..<Suc n]))"
    unfolding table_def to_data_frame_def set_column_def P ..
  ultimately have "get_results L c job_id w =
           Some (table, c',
                 w'\<lparr>sent := sent w' @
                       map (\<lambda>k. page_request hdrs' url (page_size * k)) [0..<P]\<rparr>)"
    by (simp add: get_results_def headers Let_def hdrs'_def url_def P del: upt_Suc)
  then show ?thesis
    by (simp add: page_request_def page_size_def)
qed


lemma mock_lib_fields:
  "pd_DataFrame mock_lib = frame_of_objects" "pd_to_datetime mock_lib = whole_seconds"
  "str_strip mock_lib = ascii_strip"
  by (simp_all add: mock_lib_def)

lemma mock_page_lines:
  "split_nl (ascii_strip (resp_text (mock_response 200 ndjson))) =
     meta_line # [log1_line, log2_line]"
  "split_nl (ascii_strip (resp_text (mock_response 200 long_ndjson))) =
     long_meta_line # [log1_line]"
  "split_nl (ascii_strip (resp_text (mock_response 200 first_page))) =
     long_meta_line # [log1_line, ''  '', log2_line]"
  "split_nl (ascii_strip (resp_text (mock_response 200 second_page))) =
     long_meta_line # [log3_line]"
  "split_nl (ascii_strip (resp_text (mock_response 200 bad_time_page))) =
     meta_line # [bad_time_line]"
  "ascii_strip log1_line \<noteq> []" "ascii_strip log2_line \<noteq> []" "ascii_strip log3_line \<noteq> []"
  "ascii_strip bad_time_line \<noteq> []" "ascii_strip ''  '' = []"
  by (simp_all add: mock_response_ok ndjson_def long_ndjson_def first_page_def second_page_def
        bad_time_page_def meta_line_def long_meta_line_def log1_line_def log2_line_def
        log3_line_def bad_time_line_def ascii_strip_def is_space_def)

lemma mock_parse_lines:
  "json_parse mock_lib meta_line = Some (JObj meta_json)"
  "json_parse mock_lib long_meta_line = Some (JObj long_meta_json)"
  "json_parse mock_lib log1_line = Some log1_json"
  "json_parse mock_lib log2_line = Some log2_json"
  "json_parse mock_lib log3_line = Some log3_json"
  "json_parse mock_lib bad_time_line = Some bad_time_json"
  by (simp_all add: mock_lib_def mock_parse_def auth_body_def submit_body_def running_body_def
        completed_body_def failed_body_def failed_plain_body_def canceled_body_def
        datasets_body_def no_datasets_body_def meta_line_def log1_line_def log2_line_def
        long_meta_line_def log3_line_def bad_time_line_def)

lemma mock_frames:
  "frame_of_objects [log1_json, log2_json] =
     Inr \<lparr>frame_columns =
            [(Name ''_time'', [Value (JInt 1704067200), Value (JInt 1704067201)]),
             (Name ''message'', [Value (JStr ''log1''), Value (JStr ''log2'')])],
          frame_len = 2\<rparr>"
  "frame_of_objects [log1_json, log2_json, log3_json] =
     Inr \<lparr>frame_columns =
            [(Name ''_time'',
              [Value (JInt 1704067200), Value (JInt 1704067201), Value (JInt 1704067202)]),
             (Name ''message'', [Value (JStr ''log1''), Value (JStr ''log2''),
                                 Value (JStr ''log3'')])],
          frame_len = 3\<rparr>"
  "frame_of_objects [bad_time_json] =
     Inr \<lparr>frame_columns =
            [(Name ''_time'', [Value (JStr ''abc'')]),
             (Name ''message'', [Value (JStr ''log1'')])],
          frame_len = 1\<rparr>"
  by (simp_all add: frame_of_objects_def log1_json_def log2_json_def log3_json_def
        bad_time_json_def)

theorem fetch_results_pages_witness:
  "fst (the (get_results mock_lib mock_client (JStr ''job-123'')
          (mock_world [Response (mock_response 200 auth_body),
                       Response (mock_response 200 ndjson)]))) =
     Inr \<lparr>frame_columns =
            [(Name ''_time'', [Timestamp 1704067200, Timestamp 1704067201]),
             (Name ''message'', [Value (JStr ''log1''), Value (JStr ''log2'')])],
          frame_len = 2\<rparr>
   \<and> map req_params
        (sent (snd (snd (the (get_results mock_lib mock_client (JStr ''job-123'')
          (mock_world [Response (mock_response 200 auth_body),
                       Response (mock_response 200 ndjson)])))))) =
     [[], [(''limit'', 1000), (''offset'', 0)]]
   \<and> fst (the (get_results mock_lib mock_client (JStr ''job-123'')
          (mock_world [Response (mock_response 200 auth_body),
                       Response (mock_response 200 first_page),
                       Response (mock_response 200 second_page)]))) =
     Inr \<lparr>frame_columns =
            [(Name ''_time'', [Timestamp 1704067200, Timestamp 1704067201, Timestamp 1704067202]),
             (Name ''message'', [Value (JStr ''log1''), Value (JStr ''log2''),
                                 Value (JStr ''log3'')])],
          frame_len = 3\<rparr>
   \<and> map req_params
        (sent (snd (snd (the (get_results mock_lib mock_client (JStr ''job-123'')
          (mock_world [Response (mock_response 200 auth_body),
                       Response (mock_response 200 first_page),
                       Response (mock_response 200 second_page)])))))) =
     [[], [(''limit'', 1000), (''offset'', 0)], [(''limit'', 1000), (''offset'', 1000)]]"
proof -
  let ?rs = "[Response (mock_response 200 ndjson)]"
  let ?w' = "(mock_world (Response (mock_response 200 auth_body) # ?rs))
               \<lparr>sent := [auth_request mock_client], ticks := 1\<rparr>"
  have total: "map_of meta_json ''totalEventCount'' = Some (JInt 2)"
    by (simp add: meta_json_def)
  have reply: "replies ?w' (length (sent ?w') + k) = Response (mock_response 200 ndjson)"
    if "k < 1" for k
    using that by (simp add: mock_world_def)
  have pages:
    "\<forall>k<1. replies ?w' (length (sent ?w') + k) = Response (mock_response 200 ndjson) \<and>
        \<not> is_http_error (mock_response 200 ndjson) \<and>
        split_nl (str_strip mock_lib (resp_text (mock_response 200 ndjson))) =
          meta_line # [log1_line, log2_line] \<and>
        json_parse mock_lib meta_line = Some (JObj meta_json) \<and>
        map_of meta_json ''totalEventCount'' = Some (JInt 2) \<and>
        (\<forall>l\<in>set [log1_line, log2_line].
            str_strip mock_lib l \<noteq> [] \<longrightarrow> json_parse mock_lib l \<noteq> None)"
    using reply total
    by (simp add: mock_response_ok(1) mock_lib_fields mock_page_lines(1) mock_parse_lines)
  have count: "0 < (1::nat)" "(2::int) \<le> int (page_size * 1)"
    "\<forall>k. 0 < k \<and> k < (1::nat) \<longrightarrow> int (page_size * k) < 2"
    by (simp_all add: page_size_def)
  note one_page =
    fetch_results_pages
      [OF mock_headers [of ?rs], where P = 1 and N = 2
         and resp = "\<lambda>k. mock_response 200 ndjson" and first = "\<lambda>k. meta_line"
         and rest = "\<lambda>k. [log1_line, log2_line]" and kvs = "\<lambda>k. meta_json"
         and job_id = "JStr ''job-123''",
       OF pages count]
  let ?rs2 = "[Response (mock_response 200 first_page), Response (mock_response 200 second_page)]"
  let ?w2 = "(mock_world (Response (mock_response 200 auth_body) # ?rs2))
               \<lparr>sent := [auth_request mock_client], ticks := 1\<rparr>"
  let ?resp = "\<lambda>k::nat. if k = 0 then mock_response 200 first_page
                         else mock_response 200 second_page"
  let ?rest = "\<lambda>k::nat. if k = 0 then [log1_line, ''  '', log2_line] else [log3_line]"
  have total2: "map_of long_meta_json ''totalEventCount'' = Some (JInt 1500)"
    by (simp add: long_meta_json_def)
  have page: "replies ?w2 (length (sent ?w2) + k) = Response (?resp k) \<and>
        \<not> is_http_error (?resp k) \<and>
        split_nl (str_strip mock_lib (resp_text (?resp k))) = long_meta_line # ?rest k \<and>
        json_parse mock_lib long_meta_line = Some (JObj long_meta_json) \<and>
        map_of long_meta_json ''totalEventCount'' = Some (JInt 1500) \<and>
        (\<forall>l\<in>set (?rest k). str_strip mock_lib l \<noteq> [] \<longrightarrow> json_parse mock_lib l \<noteq> None)"
    if "k < 2" for k
  proof -
    from that consider "k = 0" | "k = 1"
      by linarith
    then show ?thesis
    proof cases
      case 1
      then show ?thesis
        using total2
        by (simp add: mock_world_def mock_response_ok(1) mock_lib_fields mock_page_lines
              mock_parse_lines)
    next
      case 2
      then show ?thesis
        using total2
        by (simp add: mock_world_def mock_response_ok(1) mock_lib_fields mock_page_lines
              mock_parse_lines)
    qed
  qed
  then have pages2:
    "\<forall>k<2. replies ?w2 (length (sent ?w2) + k) = Response (?resp k) \<and>
        \<not> is_http_error (?resp k) \<and>
        split_nl (str_strip mock_lib (resp_text (?resp k))) = long_meta_line # ?rest k \<and>
        json_parse mock_lib long_meta_line = Some (JObj long_meta_json) \<and>
        map_of long_meta_json ''totalEventCount'' = Some (JInt 1500) \<and>
        (\<forall>l\<in>set (?rest k). str_strip mock_lib l \<noteq> [] \<longrightarrow> json_parse mock_lib l \<noteq> None)"
    by blast
  have count2: "0 < (2::nat)" "(1500::int) \<le> int (page_size * 2)"
    "\<forall>k. 0 < k \<and> k < (2::nat) \<longrightarrow> int (page_size * k) < 1500"
    by (auto simp: page_size_def)
  note two_pages =
    fetch_results_pages
      [OF mock_headers [of ?rs2], where P = 2 and N = 1500
         and resp = ?resp and first = "\<lambda>k. long_meta_line"
         and rest = ?rest and kvs = "\<lambda>k. long_meta_json"
         and job_id = "JStr ''job-123''",
       OF pages2 count2]
  have upt2: "[0..<2] = [0, Suc 0]"
    by (simp add: numeral_2_eq_2)
  from one_page have 1: "fst (the (get_results mock_lib mock_client (JStr ''job-123'')
          (mock_world [Response (mock_response 200 auth_body),
                       Response (mock_response 200 ndjson)]))) =
     Inr \<lparr>frame_columns =
            [(Name ''_time'', [Timestamp 1704067200, Timestamp 1704067201]),
             (Name ''message'', [Value (JStr ''log1''), Value (JStr ''log2'')])],
          frame_len = 2\<rparr>
   \<and> map req_params
        (sent (snd (snd (the (get_results mock_lib mock_client (JStr ''job-123'')
          (mock_world [Response (mock_response 200 auth_body),
                       Response (mock_response 200 ndjson)])))))) =
     [[], [(''limit'', 1000), (''offset'', 0)]]"
    by (simp add: mock_lib_fields mock_page_lines mock_parse_lines mock_frames mock_world_fresh
          auth_request_def page_request_def page_size_def)
  from two_pages have 2: "fst (the (get_results mock_lib mock_client (JStr ''job-123'')
          (mock_world [Response (mock_response 200 auth_body),
                       Response (mock_response 200 first_page),
                       Response (mock_response 200 second_page)]))) =
     Inr \<lparr>frame_columns =
            [(Name ''_time'', [Timestamp 1704067200, Timestamp 1704067201, Timestamp 1704067202]),
             (Name ''message'', [Value (JStr ''log1''), Value (JStr ''log2''),
                                 Value (JStr ''log3'')])],
          frame_len = 3\<rparr>
   \<and> map req_params
        (sent (snd (snd (the (get_results mock_lib mock_client (JStr ''job-123'')
          (mock_world [Response (mock_response 200 auth_body),
                       Response (mock_response 200 first_page),
                       Response (mock_response 200 second_page)])))))) =
     [[], [(''limit'', 1000), (''offset'', 0)], [(''limit'', 1000), (''offset'', 1000)]]"
    by (simp add: upt2 mock_lib_fields mock_page_lines mock_parse_lines mock_frames
          mock_world_fresh auth_request_def page_request_def page_size_def)
  from 1 2 show ?thesis
    by simp
qed

theorem fetch_results_time_text_counterexample:
  "split_nl (str_strip mock_lib (resp_text (mock_response 200 bad_time_page))) =
     [meta_line, bad_time_line]
   \<and> json_parse mock_lib meta_line = Some (JObj meta_json)
   \<and> map_of meta_json ''totalEventCount'' = Some (JInt 2)
   \<and> json_parse mock_lib bad_time_line =
       Some (JObj [(''_time'', JStr ''abc''), (''message'', JStr ''log1'')])
   \<and> fst (the (get_results mock_lib mock_client (JStr ''job-123'')
          (mock_world [Response (mock_response 200 auth_body),
                       Response (mock_response 200 bad_time_page)]))) =
     Inl ValueError"
proof -
  let ?rs = "[Response (mock_response 200 bad_time_page)]"
  let ?w' = "(mock_world (Response (mock_response 200 auth_body) # ?rs))
               \<lparr>sent := [auth_request mock_client], ticks := 1\<rparr>"
  have page: "replies ?w' (length (sent ?w')) = Response (mock_response 200 bad_time_page)"
    by (simp add: mock_world_def)
  have lines: "split_nl (py_strip mock_lib (resp_text (mock_response 200 bad_time_page))) =
      meta_line # [bad_time_line]"
    by (simp add: py_strip_def mock_lib_fields mock_page_lines)
  have total: "map_of meta_json ''totalEventCount'' = Some (JInt 2)"
    by (simp add: meta_json_def)
  have recs: "append_records mock_lib [] [bad_time_line] = Inr [bad_time_json]"
    by (simp add: py_strip_def mock_lib_fields mock_page_lines mock_parse_lines json_loads_def)
  have loop: "get_results_loop mock_lib hdrs url [] 0 ?w' =
      Some (Inr [bad_time_json], ?w'\<lparr>sent := sent ?w' @ [page_request hdrs url 0]\<rparr>)"
    for hdrs url
    using get_results_loop_page
            [OF page mock_response_ok(1) lines mock_parse_lines(1) total recs refl,
             where hdrs = hdrs and url = url and offset = 0 and acc = "[]"]
    by (simp add: page_size_def)
  have frame: "to_data_frame mock_lib [bad_time_json] = Inl ValueError"
    by (simp add: to_data_frame_def mock_lib_fields mock_frames)
  have "fst (the (get_results mock_lib mock_client (JStr ''job-123'')
          (mock_world [Response (mock_response 200 auth_body),
                       Response (mock_response 200 bad_time_page)]))) =
     Inl ValueError"
    unfolding get_results_def mock_headers
    by (simp only: prod.case sum.case Let_def loop option.case frame) simp
  then show ?thesis
    using total
    by (simp add: mock_lib_fields mock_page_lines mock_parse_lines bad_time_json_def)
qed


lemma get_results_loop_returns:
  assumes "request_fails (replies w (length (sent w) + j))"
  shows "\<exists>y. get_results_loop L hdrs url acc offset w = Some y"
  using assms
proof (induction j arbitrary: w acc offset)
  case 0
  then show ?case
    by (subst get_results_loop.simps)
       (auto simp: send_def request_fails_def split: http_result.splits)
next
  case (Suc j)
  let ?w1 = "w\<lparr>sent := sent w @ [page_request hdrs url offset]\<rparr>"
  from Suc.prems have "request_fails (replies ?w1 (length (sent ?w1) + j))"
    by simp
  then have "\<exists>y. get_results_loop L hdrs url acc' (offset + page_size) ?w1 = Some y" for acc'
    by (rule Suc.IH)
  then show ?case
    by (subst get_results_loop.simps)
       (auto simp: send_def split: http_result.splits list.splits sum.splits)
qed

lemma get_results_loop_atomic:
  assumes "get_results_loop L hdrs url acc offset w = Some y"
  shows "replies (snd y) = replies w \<and> length (sent w) < length (sent (snd y)) \<and>
         (\<forall>k. length (sent w) \<le> k \<and> k < length (sent (snd y)) \<and> request_fails (replies w k) \<longrightarrow>
              (\<exists>m. fst y = Inl (QueryError (''Failed to retrieve results: '' @ m) None)))"
proof (rule get_results_loop.raw_induct
    [where P = "\<lambda>L hdrs url acc offset w y.
       replies (snd y) = replies w \<and> length (sent w) < length (sent (snd y)) \<and>
       (\<forall>k. length (sent w) \<le> k \<and> k < length (sent (snd y)) \<and> request_fails (replies w k) \<longrightarrow>
            (\<exists>m. fst y = Inl (QueryError (''Failed to retrieve results: '' @ m) None)))",
     OF _ assms])
  fix loop :: "pylib \<Rightarrow> (string \<times> string) list \<Rightarrow> string \<Rightarrow> json list \<Rightarrow> nat \<Rightarrow> world
      \<Rightarrow> ((error + json list) \<times> world) option"
    and L :: pylib and hdrs :: "(string \<times> string) list" and url :: string
    and acc :: "json list" and offset :: nat and w :: world
    and y :: "(error + json list) \<times> world"
  assume IH: "\<And>L hdrs url acc offset w y. loop L hdrs url acc offset w = Some y \<Longrightarrow>
       replies (snd y) = replies w \<and> length (sent w) < length (sent (snd y)) \<and>
       (\<forall>k. length (sent w) \<le> k \<and> k < length (sent (snd y)) \<and> request_fails (replies w k) \<longrightarrow>
            (\<exists>m. fst y = Inl (QueryError (''Failed to retrieve results: '' @ m) None)))"
  assume body: "(case send (page_request hdrs url offset) w of
        (Transport_Failure m, w1) \<Rightarrow>
          Some (Inl (QueryError (''Failed to retrieve results: '' @ m) None), w1)
      | (Response resp, w1) \<Rightarrow>
          if is_http_error resp
          then Some (Inl (QueryError (''Failed to retrieve results: '' @ http_error_str resp)
                            None), w1)
          else (case split_nl (py_strip L (resp_text resp)) of
                  [] \<Rightarrow> Some (Inr acc, w1)
                | first # rest \<Rightarrow>
                    (case json_loads L first of
                       Inl e \<Rightarrow> Some (Inl e, w1)
                     | Inr metadata \<Rightarrow>
                         (case get_default metadata ''totalEventCount'' (JInt 0) of
                            Inl e \<Rightarrow> Some (Inl e, w1)
                          | Inr total_count \<Rightarrow>
                              (case append_records L acc rest of
                                 Inl e \<Rightarrow> Some (Inl e, w1)
                               | Inr records \<Rightarrow>
                                   (case last_page (offset + page_size) total_count of
                                      Inl e \<Rightarrow> Some (Inl e, w1)
                                    | Inr stop \<Rightarrow>
                                        if stop then Some (Inr records, w1)
                                        else loop L hdrs url records
                                               (offset + page_size) w1)))))) = Some y"
  let ?w1 = "w\<lparr>sent := sent w @ [page_request hdrs url offset]\<rparr>"
  let ?goal = "replies (snd y) = replies w \<and> length (sent w) < length (sent (snd y)) \<and>
       (\<forall>k. length (sent w) \<le> k \<and> k < length (sent (snd y)) \<and> request_fails (replies w k) \<longrightarrow>
            (\<exists>m. fst y = Inl (QueryError (''Failed to retrieve results: '' @ m) None)))"
  have stop: ?goal if "y = (r, ?w1)" "request_fails (replies w (length (sent w))) \<longrightarrow>
      (\<exists>m. r = Inl (QueryError (''Failed to retrieve results: '' @ m) None))" for r
  proof -
    from that(1) have y: "snd y = ?w1" "fst y = r"
      by simp_all
    show ?thesis
      unfolding y
    proof (intro conjI allI impI)
      show "replies ?w1 = replies w"
        by simp
      show "length (sent w) < length (sent ?w1)"
        by simp
      fix k
      assume "length (sent w) \<le> k \<and> k < length (sent ?w1) \<and> request_fails (replies w k)"
      then have "k = length (sent w)" and "request_fails (replies w k)"
        by simp_all
      with that(2) show "\<exists>m. r = Inl (QueryError (''Failed to retrieve results: '' @ m) None)"
        by blast
    qed
  qed
  have continue: ?goal
    if "\<not> request_fails (replies w (length (sent w)))" "loop L hdrs url acc' offset' ?w1 = Some y"
    for acc' offset'
  proof -
    from IH [OF that(2)] have ih: "replies (snd y) = replies w"
      "Suc (length (sent w)) < length (sent (snd y))"
      "\<And>k. Suc (length (sent w)) \<le> k \<Longrightarrow> k < length (sent (snd y)) \<Longrightarrow>
         request_fails (replies w k) \<Longrightarrow>
         \<exists>m. fst y = Inl (QueryError (''Failed to retrieve results: '' @ m) None)"
      by auto
    have "\<exists>m. fst y = Inl (QueryError (''Failed to retrieve results: '' @ m) None)"
      if "length (sent w) \<le> k" "k < length (sent (snd y))" "request_fails (replies w k)" for k
    proof (cases "k = length (sent w)")
      case True
      with that(3) \<open>\<not> request_fails (replies w (length (sent w)))\<close> show ?thesis
        by simp
    next
      case False
      with that have "Suc (length (sent w)) \<le> k"
        by simp
      then show ?thesis
        using that(2,3) by (rule ih(3))
    qed
    with ih(1,2) show ?thesis
      by auto
  qed
  show ?goal
  proof (cases "replies w (length (sent w))")
    case (Transport_Failure m)
    with body show ?thesis
      by (intro stop [where r = "Inl (QueryError (''Failed to retrieve results: '' @ m) None)"])
         (auto simp: send_def)
  next
    case (Response resp)
    show ?thesis
    proof (cases "is_http_error resp")
      case True
      with body Response show ?thesis
        by (intro stop [where r = "Inl (QueryError (''Failed to retrieve results: '' @
              http_error_str resp) None)"]) (auto simp: send_def)
    next
      case False
      with Response have ok: "\<not> request_fails (replies w (length (sent w)))"
        by (simp add: request_fails_def)
      from body Response False
      have "(\<exists>r. y = (r, ?w1)) \<or> (\<exists>acc' offset'. loop L hdrs url acc' offset' ?w1 = Some y)"
        by (auto simp: send_def split: list.splits sum.splits if_splits)
      then show ?thesis
      proof
        assume "\<exists>r. y = (r, ?w1)"
        then obtain r where "y = (r, ?w1)"
          by blast
        then show ?thesis
          using ok by (intro stop [where r = r]) simp_all
      next
        assume "\<exists>acc' offset'. loop L hdrs url acc' offset' ?w1 = Some y"
        then obtain acc' offset' where "loop L hdrs url acc' offset' ?w1 = Some y"
          by blast
        with ok show ?thesis
          by (rule continue)
      qed
    qed
  qed
qed


text \<open>
  Claim C9. If the reply to the \<open>j\<close>-th further request fails (transport failure or error
  status), then \<open>get_results\<close> returns, whatever the pages before it held; and when the
  call has sent that request, what it returns is \<open>QueryError\<close>, a value that carries
  none of the records read from the pages before. (When the loop has ended before
  sending it, the failing reply is never seen.)
\<close>

theorem fetch_results_atomic:
  fixes L :: pylib and c c' :: client and w w' :: world and job_id :: json
  assumes headers: "get_headers L c w = (Inr hdrs, c', w')"
    and fails: "request_fails (replies w' (length (sent w') + j))"
  shows "\<exists>r w''. get_results L c job_id w = Some (r, c', w'') \<and>
           (length (sent w') + j < length (sent w'') \<longrightarrow>
              (\<exists>m. r = Inl (QueryError (''Failed to retrieve results: '' @ m) None)))"
proof -
  let ?hdrs = "hdrs @ [(''Accept'', ''application/x-ndjson'')]"
  let ?url = "api_base_url (config c') @ ''/search/jobs/'' @ py_str L job_id @ ''/results''"
  let ?table = "\<lambda>r. case r of Inl e \<Rightarrow> Inl e | Inr all_records \<Rightarrow> to_data_frame L all_records"
  from get_results_loop_returns [OF fails]
  obtain r w'' where loop: "get_results_loop L ?hdrs ?url [] 0 w' = Some (r, w'')"
    by fastforce
  from get_results_loop_atomic [OF loop] fails
  have "length (sent w') + j < length (sent w'') \<longrightarrow>
          (\<exists>m. r = Inl (QueryError (''Failed to retrieve results: '' @ m) None))"
    by auto
  then have "length (sent w') + j < length (sent w'') \<longrightarrow>
          (\<exists>m. ?table r = Inl (QueryError (''Failed to retrieve results: '' @ m) None))"
    by auto
  moreover from loop have "get_results L c job_id w = Some (?table r, c', w'')"
    by (simp add: get_results_def headers Let_def split: sum.splits)
  ultimately show ?thesis
    by blast
qed

lemma mock_two_pages_then_failure:
  "get_results mock_lib mock_client (JStr ''job-123'')
     (mock_world [Response (mock_response 200 auth_body),
                  Response (mock_response 200 long_ndjson)]) =
   Some (Inl (QueryError ''Failed to retrieve results: Connection refused'' None),
         mock_client\<lparr>token := JStr ''mock-token-12345'', token_expires_at := PFloat (Finite 87400)\<rparr>,
         (mock_world [Response (mock_response 200 auth_body),
                      Response (mock_response 200 long_ndjson)])
           \<lparr>sent := [auth_request mock_client,
                     page_request [(''Authorization'', ''Bearer mock-token-12345''),
                                   (''Content-Type'', ''application/json''),
                                   (''Accept'', ''application/x-ndjson'')]
                       (api_base_url (config mock_client) @ ''/search/jobs/job-123/results'') 0,
                     page_request [(''Authorization'', ''Bearer mock-token-12345''),
                                   (''Content-Type'', ''application/json''),
                                   (''Accept'', ''application/x-ndjson'')]
                       (api_base_url (config mock_client) @ ''/search/jobs/job-123/results'')
                       1000],
             ticks := 1\<rparr>)"
proof -
  let ?rs = "[Response (mock_response 200 long_ndjson)]"
  let ?w' = "(mock_world (Response (mock_response 200 auth_body) # ?rs))
               \<lparr>sent := [auth_request mock_client], ticks := 1\<rparr>"
  let ?hdrs = "[(''Authorization'', ''Bearer mock-token-12345''),
                (''Content-Type'', ''application/json'')] @ [(''Accept'', ''application/x-ndjson'')]"
  let ?url = "api_base_url (config
       (mock_client\<lparr>token := JStr ''mock-token-12345'', token_expires_at := PFloat (Finite 87400)\<rparr>)) @
       ''/search/jobs/'' @ py_str mock_lib (JStr ''job-123'') @ ''/results''"
  let ?w1 = "?w'\<lparr>sent := sent ?w' @ [page_request ?hdrs ?url 0]\<rparr>"
  have page: "replies ?w' (length (sent ?w')) = Response (mock_response 200 long_ndjson)"
    by (simp add: mock_world_def)
  have total: "map_of long_meta_json ''totalEventCount'' = Some (JInt 1500)"
    by (simp add: long_meta_json_def)
  have lines: "split_nl (py_strip mock_lib (resp_text (mock_response 200 long_ndjson))) =
      long_meta_line # [log1_line]"
    by (simp add: py_strip_def mock_lib_fields mock_page_lines)
  have recs: "append_records mock_lib [] [log1_line] = Inr [log1_json]"
    by (simp add: py_strip_def mock_lib_fields mock_page_lines mock_parse_lines json_loads_def)
  have first: "get_results_loop mock_lib ?hdrs ?url [] 0 ?w' =
      get_results_loop mock_lib ?hdrs ?url ([] @ [log1_json]) (0 + page_size) ?w1"
    using get_results_loop_page
            [OF page mock_response_ok(1) lines mock_parse_lines(2) total recs refl,
             where hdrs = ?hdrs and url = ?url and offset = 0 and acc = "[]"]
    by (simp add: page_size_def)
  have second: "get_results_loop mock_lib ?hdrs ?url ([] @ [log1_json]) (0 + page_size) ?w1 =
      Some (Inl (QueryError ''Failed to retrieve results: Connection refused'' None),
            ?w1\<lparr>sent := sent ?w1 @ [page_request ?hdrs ?url (0 + page_size)]\<rparr>)"
    by (subst get_results_loop.simps) (simp add: send_def mock_world_def)
  have loop: "get_results_loop mock_lib ?hdrs ?url [] 0 ?w' =
      Some (Inl (QueryError ''Failed to retrieve results: Connection refused'' None),
            ?w1\<lparr>sent := sent ?w1 @ [page_request ?hdrs ?url (0 + page_size)]\<rparr>)"
    by (simp only: first second)
  show ?thesis
    unfolding get_results_def mock_headers
    by (simp only: prod.case sum.case Let_def loop option.case)
       (simp add: py_str_def page_size_def)
qed

theorem fetch_results_atomic_witness:
  "fst (the (get_results mock_lib mock_client (JStr ''job-123'')
          (mock_world [Response (mock_response 200 auth_body),
                       Response (mock_response 200 long_ndjson)]))) =
     Inl (QueryError ''Failed to retrieve results: Connection refused'' None)"
proof -
  let ?rs = "[Response (mock_response 200 long_ndjson)]"
  let ?w' = "(mock_world (Response (mock_response 200 auth_body) # ?rs))
               \<lparr>sent := [auth_request mock_client], ticks := 1\<rparr>"
  have fails: "request_fails (replies ?w' (length (sent ?w') + 1))"
    by (simp add: mock_world_def request_fails_def)
  from fetch_results_atomic [OF mock_headers [of ?rs] fails, of "JStr ''job-123''"]
  obtain r w'' where result: "get_results mock_lib mock_client (JStr ''job-123'')
      (mock_world (Response (mock_response 200 auth_body) # ?rs)) =
      Some (r, mock_client\<lparr>token := JStr ''mock-token-12345'', token_expires_at := PFloat (Finite 87400)\<rparr>, w'')"
    and error: "length (sent ?w') + 1 < length (sent w'') \<longrightarrow>
      (\<exists>m. r = Inl (QueryError (''Failed to retrieve results: '' @ m) None))"
    by blast
  from result have "r = Inl (QueryError ''Failed to retrieve results: Connection refused'' None)"
    unfolding mock_two_pages_then_failure by simp
  with result show ?thesis
    by simp
qed

end
